theory Spec2Isabelle
  imports Main "HOL-Library.Word" "HOL-Library.Sublist"
begin

section \<open>JavaScript strings\<close>

text \<open>
  A JavaScript string is a sequence of 16-bit code units: \<open>length\<close>, \<open>substring\<close>,
  \<open>includes\<close>, \<open>===\<close> and \<open>split\<close> all work on code units, and so does the model.
  \<open>js\<close> reads an ASCII literal of the source as such a sequence.
\<close>

type_synonym jsstring = "16 word list"

definition js :: "string \<Rightarrow> jsstring" where
  "js s = map of_char s"

text \<open>
  \<open>String.prototype.toLowerCase\<close>, on the code units of Basic Latin and Latin-1
  (\<open>A\<close>..\<open>Z\<close>, and U+00C0..U+00DE without the multiplication sign U+00D7). Code units
  above U+00FF are left as they are: the Unicode case tables beyond Latin-1 are not part of
  this model.
\<close>

definition lowerUnit :: "16 word \<Rightarrow> 16 word" where
  "lowerUnit c =
     (if (0x41 \<le> c \<and> c \<le> 0x5A) \<or> (0xC0 \<le> c \<and> c \<le> 0xDE \<and> c \<noteq> 0xD7)
      then c + 0x20 else c)"

definition toLowerCase :: "jsstring \<Rightarrow> jsstring" where
  "toLowerCase s = map lowerUnit s"

text \<open>\<open>s.includes(sub)\<close>: \<open>sub\<close> occurs in \<open>s\<close> as a contiguous run of code units.\<close>

fun includesStr :: "jsstring \<Rightarrow> jsstring \<Rightarrow> bool" where
  "includesStr [] sub = (sub = [])"
| "includesStr (c # cs) sub = (prefix sub (c # cs) \<or> includesStr cs sub)"

text \<open>\<open>s.substring(0, n)\<close>.\<close>

definition substring0 :: "jsstring \<Rightarrow> nat \<Rightarrow> jsstring" where
  "substring0 s n = take n s"

text \<open>Truthiness of a string: only the empty string is falsy.\<close>

definition truthy :: "jsstring \<Rightarrow> bool" where
  "truthy s = (s \<noteq> [])"

text \<open>\<open>x || d\<close> where \<open>x\<close> is a string that may be \<open>undefined\<close>.\<close>

definition orElse :: "jsstring option \<Rightarrow> jsstring \<Rightarrow> jsstring" where
  "orElse x d = (case x of None \<Rightarrow> d | Some s \<Rightarrow> if truthy s then s else d)"

section \<open>The response enhancer (messages.ts, enhanceResponse)\<close>

text \<open>
  \<open>enhancedResponses\<close> is an object literal, and \<open>enhancedResponses[originalResponse]\<close>
  is a property read: it finds the four own properties and, for a key that is none of them,
  the members that every object literal inherits from \<open>Object.prototype\<close>. Such a member
  is a function (or, for \<open>__proto__\<close>, the prototype object): truthy, and not a string.
\<close>

datatype jsvalue = JSString jsstring | Inherited jsstring

definition enhancedResponses :: "(jsstring \<times> jsstring) list" where
  "enhancedResponses =
    [(js ''Sorry, I could not generate a response.'',
      js ''I apologize, but I'm having trouble generating a response right now. This could be due to a temporary issue with my knowledge base or the complexity of your question. Could you please try rephrasing your question or ask something more specific? I'm here to help and want to provide you with the best possible assistance.''),
     (js ''I couldn't retrieve relevant information at the moment. How else can I assist you?'',
      js ''I'm currently unable to access my extended knowledge base, but I'd be happy to help you with general questions or discuss topics based on my core knowledge. What would you like to know? I can assist with various subjects including technology, programming, general knowledge, and more.''),
     (js ''I couldn't access my extended knowledge at the moment. The embedding service is not configured.'',
      js ''I'm currently operating with limited access to my knowledge base, but I can still help you with many topics. What specific question do you have? I can provide general information, help with programming questions, explain concepts, or assist with various other subjects.''),
     (js ''I received your message.'',
      js ''Thank you for your message! I'd be happy to help you with any questions or topics you'd like to discuss. Could you please provide more details about what you'd like to know? The more specific you are, the better I can assist you.'')]"

definition objectPrototypeKeys :: "jsstring list" where
  "objectPrototypeKeys =
    [js ''constructor'', js ''hasOwnProperty'', js ''isPrototypeOf'',
     js ''propertyIsEnumerable'', js ''toLocaleString'', js ''toString'', js ''valueOf'',
     js ''__proto__'', js ''__defineGetter__'', js ''__defineSetter__'',
     js ''__lookupGetter__'', js ''__lookupSetter__'']"

definition getProperty :: "(jsstring \<times> jsstring) list \<Rightarrow> jsstring \<Rightarrow> jsvalue option" where
  "getProperty obj k =
     (case map_of obj k of
        Some v \<Rightarrow> Some (JSString v)
      | None \<Rightarrow> if k \<in> set objectPrototypeKeys then Some (Inherited k) else None)"

fun truthyValue :: "jsvalue \<Rightarrow> bool" where
  "truthyValue (JSString s) = truthy s"
| "truthyValue (Inherited k) = True"

definition greetingReply :: jsstring where
  "greetingReply = js ''Hello! I'm here to help you with any questions or topics you'd like to explore. Whether you need help with programming, want to learn about new technologies, discuss ideas, or just have a conversation, I'm ready to assist. What would you like to talk about today?''"

definition helpReply :: jsstring where
  "helpReply = js ''I'm here to help! I can assist you with a wide range of topics including programming, technology, general knowledge, problem-solving, and more. Just let me know what specific area you need help with, and I'll do my best to provide detailed, helpful information. What can I help you with today?''"

definition thanksReply :: jsstring where
  "thanksReply = js ''You're very welcome! I'm glad I could help. If you have any more questions or need assistance with anything else, feel free to ask. I'm here to help with programming, technology, general knowledge, or any other topics you'd like to explore. What else can I assist you with?''"

definition farewellReply :: jsstring where
  "farewellReply = js ''Goodbye! It was great chatting with you. Feel free to return anytime if you have more questions or need assistance. I'm always here to help with programming, technology, learning, or any other topics you're interested in. Have a wonderful day!''"

definition genericSuffix :: jsstring where
  "genericSuffix = js '' I'd be happy to provide more detailed information or help you explore this topic further. Could you please let me know what specific aspects you'd like me to elaborate on? I can provide examples, explanations, or discuss related concepts to give you a more comprehensive understanding.''"

text \<open>Lines 50 to 69 of messages.ts: the reply chosen from the user's query.\<close>

definition enhanceByQuery :: "jsstring \<Rightarrow> jsstring \<Rightarrow> jsstring" where
  "enhanceByQuery originalResponse userQuery =
     (let queryLower = toLowerCase userQuery in
      if includesStr queryLower (js ''hello'') \<or> includesStr queryLower (js ''hi'')
        then greetingReply
      else if includesStr queryLower (js ''help'') \<or> includesStr queryLower (js ''assist'')
        then helpReply
      else if includesStr queryLower (js ''thanks'') \<or> includesStr queryLower (js ''thank you'')
        then thanksReply
      else if includesStr queryLower (js ''bye'') \<or> includesStr queryLower (js ''goodbye'')
        then farewellReply
      else originalResponse @ genericSuffix)"

definition enhanceResponse :: "jsstring \<Rightarrow> jsstring \<Rightarrow> jsvalue" where
  "enhanceResponse originalResponse userQuery =
     (if length originalResponse > 200 then JSString originalResponse
      else case getProperty enhancedResponses originalResponse of
             Some v \<Rightarrow>
               if truthyValue v then v
               else JSString (enhanceByQuery originalResponse userQuery)
           | None \<Rightarrow> JSString (enhanceByQuery originalResponse userQuery))"

section \<open>Exceptions\<close>

text \<open>
  Everything the code can throw: the three errors of the API middleware, the two runtime
  errors of JavaScript that the modelled code can reach, and the rejections of an HTTP call
  (an Axios error carries the response status, if there was a response, and a message).
  A computation that may throw returns \<open>error + 'a\<close>, with \<open>Inl\<close> the thrown error.
\<close>

datatype error =
    ValidationError string
  | NotFoundError string
  | UnauthorizedError string
  | TypeError string
  | SyntaxError string
  | AxiosError "nat option" jsstring
  | OtherError

text \<open>\<open>try { body } catch (e) { handler(e) }\<close>.\<close>

definition tryCatch :: "error + 'a \<Rightarrow> (error \<Rightarrow> error + 'a) \<Rightarrow> error + 'a" where
  "tryCatch body handler = (case body of Inr v \<Rightarrow> Inr v | Inl e \<Rightarrow> handler e)"

section \<open>The store and the outside world\<close>

text \<open>
  Modelled from the spec: the Thread and Message schemas (models/thread.js and
  models/message.js) are not part of the sources; their fields are those of the
  specification's data model. Object ids are natural numbers, handed out in sequence;
  timestamps are readings of a clock that advances with every write.
\<close>

type_synonym oid = nat

record Thread =
  t_id :: oid
  t_userId :: jsstring
  t_title :: jsstring
  t_isActive :: bool
  t_createdBy :: jsstring
  t_createdAt :: nat
  t_updatedAt :: nat

record Message =
  m_id :: oid
  m_threadId :: oid
  m_content :: jsstring
  m_sender :: jsstring
  m_files :: "jsstring list"
  m_createdAt :: nat
  m_updatedAt :: nat

record embed_request =
  eq_userId :: jsstring
  eq_threadId :: "oid option"
  eq_content :: jsstring
  eq_messageId :: "oid option"

record rag_request =
  rq_userId :: jsstring
  rq_threadId :: "oid option"
  rq_query :: jsstring

text \<open>
  Every call that leaves the process is written to a trace: the operations on the two
  collections and the two HTTP requests of the embedding service.
\<close>

datatype event =
    ThreadFindOne jsstring
  | ThreadFindById oid
  | ThreadCreate oid
  | ThreadUpdate oid
  | MessageSave oid
  | MessageInsertMany "oid list"
  | MessageFind oid
  | PostEmbed embed_request
  | PostRagGenerate rag_request

record world =
  threads :: "Thread list"
  messages :: "Message list"
  nextId :: oid
  clock :: nat
  trace :: "event list"

definition logEvent :: "event \<Rightarrow> world \<Rightarrow> world" where
  "logEvent e w = w\<lparr>trace := trace w @ [e]\<rparr>"

text \<open>\<open>.sort({ updatedAt: -1 })\<close> followed by taking the first document.\<close>

fun mostRecentlyUpdated :: "Thread list \<Rightarrow> Thread option" where
  "mostRecentlyUpdated [] = None"
| "mostRecentlyUpdated (t # ts) =
     (case mostRecentlyUpdated ts of
        None \<Rightarrow> Some t
      | Some u \<Rightarrow> if t_updatedAt t < t_updatedAt u then Some u else Some t)"

text \<open>\<open>Thread.findOne({ userId, isActive: true }).sort({ updatedAt: -1 })\<close>.\<close>

definition Thread_findOne :: "jsstring \<Rightarrow> world \<Rightarrow> Thread option \<times> world" where
  "Thread_findOne uid w =
     (mostRecentlyUpdated (filter (\<lambda>t. t_userId t = uid \<and> t_isActive t) (threads w)),
      logEvent (ThreadFindOne uid) w)"

text \<open>\<open>Thread.findById(id)\<close>.\<close>

definition Thread_findById :: "oid \<Rightarrow> world \<Rightarrow> Thread option \<times> world" where
  "Thread_findById tid w =
     (find (\<lambda>t. t_id t = tid) (threads w), logEvent (ThreadFindById tid) w)"

text \<open>\<open>Thread.create({ userId, title, createdBy, isActive })\<close>.\<close>

definition Thread_create ::
  "jsstring \<Rightarrow> jsstring \<Rightarrow> jsstring \<Rightarrow> bool \<Rightarrow> world \<Rightarrow> Thread \<times> world" where
  "Thread_create uid ttl cby act w =
     (let t = \<lparr>t_id = nextId w, t_userId = uid, t_title = ttl, t_isActive = act,
                t_createdBy = cby, t_createdAt = clock w, t_updatedAt = clock w\<rparr>
      in (t, w\<lparr>threads := threads w @ [t], nextId := nextId w + 1, clock := clock w + 1,
                trace := trace w @ [ThreadCreate (nextId w)]\<rparr>))"

text \<open>\<open>Thread.findByIdAndUpdate(id, { updatedAt: new Date() })\<close>.\<close>

definition Thread_findByIdAndUpdate :: "oid \<Rightarrow> world \<Rightarrow> world" where
  "Thread_findByIdAndUpdate tid w =
     w\<lparr>threads := map (\<lambda>t. if t_id t = tid then t\<lparr>t_updatedAt := clock w\<rparr> else t) (threads w),
        clock := clock w + 1,
        trace := trace w @ [ThreadUpdate tid]\<rparr>"

text \<open>\<open>new Message({ threadId, content, sender, files }).save()\<close>.\<close>

definition Message_save ::
  "oid \<Rightarrow> jsstring \<Rightarrow> jsstring \<Rightarrow> jsstring list \<Rightarrow> world \<Rightarrow> Message \<times> world" where
  "Message_save tid c s fs w =
     (let m = \<lparr>m_id = nextId w, m_threadId = tid, m_content = c, m_sender = s, m_files = fs,
                m_createdAt = clock w, m_updatedAt = clock w\<rparr>
      in (m, w\<lparr>messages := messages w @ [m], nextId := nextId w + 1, clock := clock w + 1,
                trace := trace w @ [MessageSave (nextId w)]\<rparr>))"

text \<open>
  \<open>Message.insertMany(docs)\<close>: one write that adds all documents, in the order given,
  with consecutive ids and one timestamp.
\<close>

fun newMessages :: "oid \<Rightarrow> nat \<Rightarrow> (oid \<times> jsstring \<times> jsstring) list \<Rightarrow> Message list" where
  "newMessages next now [] = []"
| "newMessages next now ((tid, c, s) # docs) =
     \<lparr>m_id = next, m_threadId = tid, m_content = c, m_sender = s, m_files = [],
      m_createdAt = now, m_updatedAt = now\<rparr> # newMessages (Suc next) now docs"

definition Message_insertMany ::
  "(oid \<times> jsstring \<times> jsstring) list \<Rightarrow> world \<Rightarrow> Message list \<times> world" where
  "Message_insertMany docs w =
     (let ms = newMessages (nextId w) (clock w) docs
      in (ms, w\<lparr>messages := messages w @ ms, nextId := nextId w + length docs,
                 clock := clock w + 1,
                 trace := trace w @ [MessageInsertMany (map m_id ms)]\<rparr>))"

text \<open>
  \<open>Message.find({ threadId, sender: { $ne: 'system' }, content: { $regex: regex } })
  .sort({ createdAt: -1 }).limit(3)\<close>, with the test of a compiled regular expression given
  as a predicate on the content.
\<close>

definition newestFirst :: "Message list \<Rightarrow> Message list" where
  "newestFirst ms = rev (sort_key m_createdAt ms)"

definition Message_find :: "oid \<Rightarrow> (jsstring \<Rightarrow> bool) \<Rightarrow> world \<Rightarrow> Message list \<times> world" where
  "Message_find tid test w =
     (take 3 (newestFirst
        (filter (\<lambda>m. m_threadId m = tid \<and> m_sender m \<noteq> js ''system'' \<and> test (m_content m))
           (messages w))),
      logEvent (MessageFind tid) w)"

section \<open>The embedding service (embeddingService.ts)\<close>

record EmbeddingService =
  apiUrl :: "jsstring option"
  enabled :: bool

text \<open>
  The constructor: \<open>apiUrl || process.env.EMBEDDING_API_URL\<close>, and \<open>enabled = !!apiUrl\<close>.
  The second argument is the value of the environment variable.
\<close>

definition newEmbeddingService :: "jsstring option \<Rightarrow> jsstring option \<Rightarrow> EmbeddingService" where
  "newEmbeddingService url envUrl =
     (let u = (case url of None \<Rightarrow> envUrl | Some s \<Rightarrow> if truthy s then Some s else envUrl)
      in \<lparr>apiUrl = u, enabled = (case u of None \<Rightarrow> False | Some s \<Rightarrow> truthy s)\<rparr>)"

definition isEnabled :: "EmbeddingService \<Rightarrow> bool" where
  "isEnabled svc = enabled svc"

text \<open>
  The interfaces \<open>EmbeddingResponse\<close> and \<open>RAGResponse\<close>. The vector and the matches are
  passed through and never read by the code modelled here; they are left out. The data of a
  successful HTTP response is whatever the backend sent, so every field of a
  \<open>RAGResponse\<close> may be missing.
\<close>

record EmbeddingResponse =
  e_status :: jsstring
  e_error :: "jsstring option"

record RAGResponse =
  rag_answer :: "jsstring option"
  rag_context :: "jsstring option"
  rag_responseId :: "jsstring option"

text \<open>
  The backend behind \<open>apiUrl\<close>: for each request, the data of the response, or the error
  with which \<open>axios.post\<close> rejects (timeout, non-2xx status, network error). Every call
  settles, one way or the other: the code sets no timeout of its own, and a request that is
  never answered is outside this model.
\<close>

record network =
  embedApi :: "embed_request \<Rightarrow> error + EmbeddingResponse"
  ragApi :: "rag_request \<Rightarrow> error + RAGResponse"

text \<open>Decimal digits of a number, as a template literal prints it.\<close>

fun showNat :: "nat \<Rightarrow> jsstring" where
  "showNat n = (if n < 10 then [of_nat (48 + n)] else showNat (n div 10) @ [of_nat (48 + n mod 10)])"

text \<open>The answer of the disabled branch of \<open>getRAGResponse\<close> (line 140), under a name.\<close>

definition degradedAnswer :: jsstring where
  "degradedAnswer = js ''I'm currently having trouble accessing my extended knowledge base, but I'd be happy to help you with general questions or discuss topics based on my core knowledge. What would you like to know? I can assist with various subjects including technology, programming, general knowledge, and more. Just let me know what you're interested in, and I'll provide the best possible response with the information available to me.''"

definition createEmbedding ::
  "EmbeddingService \<Rightarrow> network \<Rightarrow> jsstring \<Rightarrow> jsstring \<Rightarrow> oid option \<Rightarrow> oid option \<Rightarrow> world
     \<Rightarrow> (error + EmbeddingResponse) \<times> world" where
  "createEmbedding svc net userId content threadId messageId w =
     (if \<not> enabled svc then
        (Inr \<lparr>e_status = js ''error'',
              e_error = Some (js ''Embedding Service is disabled: No API URL available'')\<rparr>, w)
      else
        let req = \<lparr>eq_userId = userId, eq_threadId = threadId, eq_content = content,
                   eq_messageId = messageId\<rparr>
        in (tryCatch (embedApi net req)
              (\<lambda>err. case err of
                   AxiosError st msg \<Rightarrow>
                     Inr \<lparr>e_status = js ''error'',
                          e_error = Some (js ''API error: ''
                            @ (case st of None \<Rightarrow> js ''unknown''
                               | Some n \<Rightarrow> if n = 0 then js ''unknown'' else showNat n)
                            @ js '' - '' @ msg)\<rparr>
                 | _ \<Rightarrow>
                     Inr \<lparr>e_status = js ''error'',
                          e_error = Some (js ''Failed to create embedding'')\<rparr>),
            logEvent (PostEmbed req) w))"

definition getRAGResponse ::
  "EmbeddingService \<Rightarrow> network \<Rightarrow> jsstring \<Rightarrow> jsstring \<Rightarrow> oid option \<Rightarrow> world
     \<Rightarrow> (error + RAGResponse) \<times> world" where
  "getRAGResponse svc net userId query threadId w =
     (if \<not> enabled svc then
        (Inr \<lparr>rag_answer = Some (js ''I'm currently having trouble accessing my extended knowledge base, but I'd be happy to help you with general questions or discuss topics based on my core knowledge. What would you like to know? I can assist with various subjects including technology, programming, general knowledge, and more. Just let me know what you're interested in, and I'll provide the best possible response with the information available to me.''),
              rag_context = Some (js ''Embedding Service disabled: No API URL available''),
              rag_responseId = None\<rparr>, w)
      else
        let req = \<lparr>rq_userId = userId, rq_threadId = threadId, rq_query = query\<rparr>
        in (tryCatch (ragApi net req)
              (\<lambda>err.
                 Inr \<lparr>rag_answer = Some (js ''I'm currently having trouble accessing my extended knowledge base, but I'd be happy to help you with general questions or discuss topics based on my core knowledge. What would you like to know? I can assist with various subjects including technology, programming, general knowledge, and more. Just let me know what you're interested in, and I'll provide the best possible response with the information available to me.''),
                      rag_context = Some (js ''Error retrieving context''),
                      rag_responseId = None\<rparr>),
            logEvent (PostRagGenerate req) w))"

section \<open>The message routes (messages.ts)\<close>

text \<open>
  A thread id of a request body: missing (or any falsy value), present but rejected by
  \<open>mongoose.Types.ObjectId.isValid\<close>, or a valid object id.
\<close>

datatype id_param = Absent | Malformed | ObjectId oid

record turn_request =
  req_threadId :: id_param
  req_content :: "jsstring option"
  req_userId :: "jsstring option"
  req_context :: "jsstring option"
  req_files :: "jsstring list option"

record turn_response =
  r_answer :: jsstring
  r_context :: jsstring
  r_responseId :: jsstring
  r_threadId :: oid
  r_messageId :: oid

text \<open>
  Lines 103 to 147: the thread of the turn. With no thread id, the user's most recently
  updated active thread, or else a new thread titled with the first 50 code units of the
  content; with a thread id, that thread.
\<close>

definition resolveThread ::
  "id_param \<Rightarrow> jsstring \<Rightarrow> jsstring \<Rightarrow> world \<Rightarrow> (error + Thread) \<times> world" where
  "resolveThread threadId userId content w =
     (case threadId of
        Malformed \<Rightarrow> (Inl (ValidationError ''Invalid thread ID format''), w)
      | Absent \<Rightarrow>
          (case Thread_findOne userId w of
             (Some thread, w1) \<Rightarrow> (Inr thread, w1)
           | (None, w1) \<Rightarrow>
               (case Thread_create userId
                       (substring0 content 50 @ (if length content > 50 then js ''...'' else []))
                       userId True w1 of
                  (thread, w2) \<Rightarrow> (Inr thread, w2)))
      | ObjectId tid \<Rightarrow>
          (case Thread_findById tid w of
             (None, w1) \<Rightarrow> (Inl (NotFoundError ''Thread not found''), w1)
           | (Some thread, w1) \<Rightarrow> (Inr thread, w1)))"

text \<open>
  Lines 161 to 180 and 226 to 245: index a message if the service is enabled; whatever
  \<open>createEmbedding\<close> returns or throws is logged and dropped.
\<close>

definition indexMessage ::
  "EmbeddingService \<Rightarrow> network \<Rightarrow> jsstring \<Rightarrow> jsstring \<Rightarrow> oid \<Rightarrow> oid \<Rightarrow> world \<Rightarrow> world" where
  "indexMessage svc net userId content tid mid w =
     (if isEnabled svc
      then (case createEmbedding svc net userId content (Some tid) (Some mid) w of
              (Inr embeddingResult, w1) \<Rightarrow> w1
            | (Inl e, w1) \<Rightarrow> w1)
      else w)"

text \<open>
  Lines 184 to 206 (and 567 to 582): the retrieval call, with \<open>ragAnswer\<close>,
  \<open>ragContext\<close> and \<open>responseId\<close> left empty if it throws.
\<close>

definition fetchRAG ::
  "EmbeddingService \<Rightarrow> network \<Rightarrow> jsstring \<Rightarrow> jsstring \<Rightarrow> oid option \<Rightarrow> world
     \<Rightarrow> (jsstring \<times> jsstring \<times> jsstring) \<times> world" where
  "fetchRAG svc net userId content threadId w =
     (case getRAGResponse svc net userId content threadId w of
        (Inr ragResponse, w1) \<Rightarrow>
          ((orElse (rag_answer ragResponse) [],
            orElse (rag_context ragResponse) [],
            orElse (rag_responseId ragResponse) []), w1)
      | (Inl e, w1) \<Rightarrow> (([], [], []), w1))"

text \<open>
  Lines 208 to 214 (and 584 to 589): the answer of the turn. The log line after
  \<open>enhanceResponse\<close> calls \<open>substring\<close> on its result, which throws a TypeError
  when the result is not a string.
\<close>

definition composeAnswer :: "jsstring \<Rightarrow> jsstring \<Rightarrow> error + jsstring" where
  "composeAnswer ragAnswer content =
     (let aiResponseContent =
            (if truthy ragAnswer then ragAnswer
             else js ''Sorry, I could not generate a response.'')
      in case enhanceResponse aiResponseContent content of
           JSString enhancedResponse \<Rightarrow> Inr enhancedResponse
         | Inherited k \<Rightarrow> Inl (TypeError ''enhancedResponse.substring is not a function''))"

text \<open>\<open>router.post('/')\<close>, the turn (\<open>createTurn\<close> in the specification).\<close>

definition createTurn ::
  "EmbeddingService \<Rightarrow> network \<Rightarrow> turn_request \<Rightarrow> world \<Rightarrow> (error + turn_response) \<times> world" where
  "createTurn svc net req w =
     (if \<not> truthy (orElse (req_content req) []) then
        (Inl (ValidationError ''content is required''), w)
      else if \<not> truthy (orElse (req_userId req) []) then
        (Inl (ValidationError ''userId is required''), w)
      else
        let content = orElse (req_content req) [];
            userId = orElse (req_userId req) []
        in case resolveThread (req_threadId req) userId content w of
             (Inl e, w1) \<Rightarrow> (Inl e, w1)
           | (Inr thread, w1) \<Rightarrow>
               let actualThreadId = t_id thread in
               (case Message_save actualThreadId content userId
                       (case req_files req of None \<Rightarrow> [] | Some fs \<Rightarrow> fs) w1 of
                  (newMessage, w2) \<Rightarrow>
                    let w3 = indexMessage svc net userId content actualThreadId (m_id newMessage) w2
                    in (case fetchRAG svc net userId content None w3 of
                          ((ragAnswer, ragContext, rid), w4) \<Rightarrow>
                            (case composeAnswer ragAnswer content of
                               Inl e \<Rightarrow> (Inl e, w4)
                             | Inr enhancedResponse \<Rightarrow>
                                 (case Message_save actualThreadId enhancedResponse
                                         (js ''system'') [] w4 of
                                    (aiMessage, w5) \<Rightarrow>
                                      let w6 = indexMessage svc net userId enhancedResponse
                                                 actualThreadId (m_id aiMessage) w5;
                                          w7 = Thread_findByIdAndUpdate actualThreadId w6
                                      in (Inr \<lparr>r_answer = enhancedResponse,
                                                r_context = ragContext,
                                                r_responseId = rid,
                                                r_threadId = actualThreadId,
                                                r_messageId = m_id newMessage\<rparr>, w7))))))"

text \<open>\<open>router.post('/generate')\<close> (\<open>generateOnly\<close> in the specification).\<close>

record generate_response =
  g_answer :: jsstring
  g_context :: jsstring
  g_responseId :: jsstring

definition generateOnly ::
  "EmbeddingService \<Rightarrow> network \<Rightarrow> id_param \<Rightarrow> jsstring option \<Rightarrow> world
     \<Rightarrow> (error + generate_response) \<times> world" where
  "generateOnly svc net threadId userMessage w =
     (if threadId = Absent \<or> \<not> truthy (orElse userMessage []) then
        (Inl (ValidationError ''threadId and userMessage are required fields''), w)
      else case threadId of
        ObjectId tid \<Rightarrow>
          let content = orElse userMessage [] in
          (case Thread_findById tid w of
             (None, w1) \<Rightarrow> (Inl (NotFoundError ''Thread not found''), w1)
           | (Some thread, w1) \<Rightarrow>
               (case Message_save tid content
                       (if truthy (t_userId thread) then t_userId thread else js ''user'') [] w1 of
                  (userMessageDoc, w2) \<Rightarrow>
                    let w3 = indexMessage svc net (t_userId thread) content tid
                               (m_id userMessageDoc) w2
                    in (case fetchRAG svc net (t_userId thread) content (Some tid) w3 of
                          ((ragAnswer, ragContext, rid), w4) \<Rightarrow>
                            (case composeAnswer ragAnswer content of
                               Inl e \<Rightarrow> (Inl e, w4)
                             | Inr enhancedResponse \<Rightarrow>
                                 (case Message_save tid enhancedResponse (js ''system'') [] w4 of
                                    (aiMessageDoc, w5) \<Rightarrow>
                                      let w6 = indexMessage svc net (t_userId thread)
                                                 enhancedResponse tid (m_id aiMessageDoc) w5
                                      in (Inr \<lparr>g_answer = enhancedResponse,
                                                g_context =
                                                  (if truthy ragContext then ragContext
                                                   else js ''RAG context not available''),
                                                g_responseId = rid\<rparr>, w6))))))
      | _ \<Rightarrow> (Inl (ValidationError ''Invalid thread ID format''), w))"

text \<open>\<open>router.post('/batch')\<close> (\<open>batchCreateMessages\<close> in the specification).\<close>

record message_payload =
  p_content :: jsstring
  p_sender :: "jsstring option"

record message_view =
  v_id :: oid
  v_threadId :: oid
  v_content :: jsstring
  v_sender :: jsstring
  v_createdAt :: nat
  v_updatedAt :: nat

definition formatMessage :: "Message \<Rightarrow> message_view" where
  "formatMessage msg =
     \<lparr>v_id = m_id msg, v_threadId = m_threadId msg, v_content = m_content msg,
      v_sender = m_sender msg, v_createdAt = m_createdAt msg, v_updatedAt = m_updatedAt msg\<rparr>"

definition batchCreateMessages ::
  "id_param \<Rightarrow> message_payload list option \<Rightarrow> jsstring option \<Rightarrow> world
     \<Rightarrow> (error + message_view list) \<times> world" where
  "batchCreateMessages threadId messages_arg userId w =
     (case messages_arg of
        None \<Rightarrow>
          (Inl (ValidationError ''threadId and non-empty messages array are required''), w)
      | Some msgs \<Rightarrow>
          if threadId = Absent \<or> msgs = [] then
            (Inl (ValidationError ''threadId and non-empty messages array are required''), w)
          else case threadId of
            ObjectId tid \<Rightarrow>
              (case Thread_findById tid w of
                 (None, w1) \<Rightarrow> (Inl (NotFoundError ''Thread not found''), w1)
               | (Some thread, w1) \<Rightarrow>
                   if truthy (orElse userId []) \<and> t_userId thread \<noteq> orElse userId [] then
                     (Inl (UnauthorizedError
                        ''You do not have permission to add messages to this thread''), w1)
                   else
                     let messagesToInsert =
                           map (\<lambda>msg. (tid, p_content msg,
                                  orElse (p_sender msg) (orElse userId (js ''system'')))) msgs
                     in (case Message_insertMany messagesToInsert w1 of
                           (createdMessages, w2) \<Rightarrow>
                             (Inr (map formatMessage createdMessages), w2)))
          | _ \<Rightarrow> (Inl (ValidationError ''Invalid thread ID format''), w))"

section \<open>Memory recall (openai.ts, getRelevantMemory)\<close>

text \<open>
  White space as the class \<open>\s\<close> of a regular expression has it.
\<close>

definition isWhiteSpace :: "16 word \<Rightarrow> bool" where
  "isWhiteSpace c =
     (c \<in> {0x09, 0x0A, 0x0B, 0x0C, 0x0D, 0x20, 0xA0, 0x1680, 0x2028, 0x2029, 0x202F, 0x205F,
            0x3000, 0xFEFF} \<or> (0x2000 \<le> c \<and> c \<le> 0x200A))"

text \<open>
  \<open>s.split(/\s+/)\<close>: the pieces between the runs of white space; a string that starts or
  ends with white space has an empty first or last piece. The first argument is the piece
  being read, the second says whether the last code unit belonged to a separator.
\<close>

fun splitWs :: "jsstring \<Rightarrow> bool \<Rightarrow> jsstring \<Rightarrow> jsstring list" where
  "splitWs cur sep [] = [cur]"
| "splitWs cur sep (c # cs) =
     (if isWhiteSpace c
      then (if sep then splitWs cur True cs else cur # splitWs [] True cs)
      else splitWs (cur @ [c]) False cs)"

definition split_ws :: "jsstring \<Rightarrow> jsstring list" where
  "split_ws s = splitWs [] False s"

definition triggers :: "jsstring list" where
  "triggers = [js ''what did i say'', js ''earlier'', js ''before'', js ''previous'',
               js ''remind me'', js ''last time'']"

definition stopWords :: "jsstring list" where
  "stopWords = [js ''what'', js ''did'', js ''i'', js ''say'', js ''about'', js ''the'',
                js ''last'', js ''time'', js ''you'']"

text \<open>\<open>keywords.pop() || ''\<close>.\<close>

definition lastKeywordOf :: "jsstring \<Rightarrow> jsstring" where
  "lastKeywordOf queryLower =
     (let words = split_ws queryLower;
          keywords = filter (\<lambda>w. w \<notin> set stopWords) words
      in if keywords = [] then [] else last keywords)"

text \<open>
  The first argument stands for \<open>new RegExp(pattern, 'i')\<close>: \<open>None\<close> when the constructor
  rejects the pattern with a SyntaxError, and otherwise the test of a string against the
  compiled expression. The constructor is called before the \<open>try\<close> block, so its
  SyntaxError leaves the function. The bullet is U+2022.
\<close>

definition getRelevantMemory ::
  "(jsstring \<Rightarrow> (jsstring \<Rightarrow> bool) option) \<Rightarrow> oid \<Rightarrow> jsstring \<Rightarrow> world
     \<Rightarrow> (error + jsstring list) \<times> world" where
  "getRelevantMemory newRegExp threadId userMessage w =
     (let queryLower = toLowerCase userMessage;
          shouldRecall = list_ex (\<lambda>trigger. includesStr queryLower trigger) triggers
      in if \<not> shouldRecall then (Inr [], w)
         else
           let lastKeyword = lastKeywordOf queryLower
           in if \<not> truthy lastKeyword then (Inr [], w)
              else case newRegExp lastKeyword of
                     None \<Rightarrow> (Inl (SyntaxError ''Invalid regular expression''), w)
                   | Some regex \<Rightarrow>
                       (case Message_find threadId regex w of
                          (pastMessages, w1) \<Rightarrow>
                            (Inr (map (\<lambda>msg. [0x2022, 0x20] @ m_content msg) pastMessages), w1)))"

section \<open>Stores with fresh ids\<close>

text \<open>
  Object ids are unique: every id already in the store, as the id of a thread or a message
  or as the thread of a message, is below the next id to be handed out.
\<close>

definition freshIds :: "world \<Rightarrow> bool" where
  "freshIds w =
     ((\<forall>t\<in>set (threads w). t_id t < nextId w) \<and>
      (\<forall>m\<in>set (messages w). m_id m < nextId w \<and> m_threadId m < nextId w))"

section \<open>Concrete services, networks and stores\<close>

text \<open>The instances at which the theorems below are run.\<close>

definition emptyWorld :: world where
  "emptyWorld = \<lparr>threads = [], messages = [], nextId = 0, clock = 0, trace = []\<rparr>"

definition failingNetwork :: network where
  "failingNetwork =
     \<lparr>embedApi = (\<lambda>req. Inl (AxiosError None (js ''timeout of 5000ms exceeded''))),
      ragApi = (\<lambda>req. Inl (AxiosError (Some 500) (js ''Request failed with status code 500'')))\<rparr>"

definition parisResponse :: RAGResponse where
  "parisResponse = \<lparr>rag_answer = Some (js ''Paris.''), rag_context = Some (js ''atlas''),
                     rag_responseId = Some (js ''r-1'')\<rparr>"

definition answeringNetwork :: network where
  "answeringNetwork =
     \<lparr>embedApi = (\<lambda>req. Inr \<lparr>e_status = js ''success'', e_error = None\<rparr>),
      ragApi = (\<lambda>req. Inr parisResponse)\<rparr>"

definition disabledService :: EmbeddingService where
  "disabledService = newEmbeddingService None None"

definition enabledService :: EmbeddingService where
  "enabledService = newEmbeddingService (Some (js ''http://localhost:8000'')) None"

definition threadA :: Thread where
  "threadA = \<lparr>t_id = 0, t_userId = js ''u1'', t_title = js ''First chat'', t_isActive = True,
               t_createdBy = js ''u1'', t_createdAt = 0, t_updatedAt = 5\<rparr>"

definition threadB :: Thread where
  "threadB = \<lparr>t_id = 1, t_userId = js ''u1'', t_title = js ''Second chat'', t_isActive = True,
               t_createdBy = js ''u1'', t_createdAt = 1, t_updatedAt = 9\<rparr>"

definition threadC :: Thread where
  "threadC = \<lparr>t_id = 2, t_userId = js ''u2'', t_title = js ''Other user'', t_isActive = True,
               t_createdBy = js ''u2'', t_createdAt = 2, t_updatedAt = 11\<rparr>"

definition msgIot :: Message where
  "msgIot = \<lparr>m_id = 3, m_threadId = 0, m_content = js ''I built an IoT dashboard'',
              m_sender = js ''u1'', m_files = [], m_createdAt = 6, m_updatedAt = 6\<rparr>"

definition msgNode :: Message where
  "msgNode = \<lparr>m_id = 4, m_threadId = 0, m_content = js ''I use Node JS daily'',
               m_sender = js ''u1'', m_files = [], m_createdAt = 7, m_updatedAt = 7\<rparr>"

definition msgReply :: Message where
  "msgReply = \<lparr>m_id = 5, m_threadId = 0, m_content = js ''Tell me more about the IoT dashboard'',
                m_sender = js ''system'', m_files = [], m_createdAt = 8, m_updatedAt = 8\<rparr>"

definition msgOther :: Message where
  "msgOther = \<lparr>m_id = 6, m_threadId = 1, m_content = js ''IoT notes of the second chat'',
                m_sender = js ''u1'', m_files = [], m_createdAt = 9, m_updatedAt = 9\<rparr>"

definition busyWorld :: world where
  "busyWorld = \<lparr>threads = [threadA, threadB, threadC],
                 messages = [msgIot, msgNode, msgReply, msgOther], nextId = 7, clock = 12,
                 trace = []\<rparr>"

definition longContent :: jsstring where
  "longContent = js ''Please remind me what we discussed about the IoT dashboard project''"

definition otherUserWorld :: world where
  "otherUserWorld = \<lparr>threads = [threadC], messages = [], nextId = 3, clock = 12, trace = []\<rparr>"

definition helloRequest :: turn_request where
  "helloRequest = \<lparr>req_threadId = Absent, req_content = Some (js ''Hello''),
                    req_userId = Some (js ''u1''), req_context = None, req_files = None\<rparr>"

definition emptyAnswerNetwork :: network where
  "emptyAnswerNetwork =
     \<lparr>embedApi = (\<lambda>req. Inl (AxiosError None (js ''timeout of 5000ms exceeded''))),
      ragApi = (\<lambda>req. Inr \<lparr>rag_answer = Some [], rag_context = None, rag_responseId = None\<rparr>)\<rparr>"

text \<open>The substitute stored in \<open>enhancedResponses\<close> for the answer that could not be generated.\<close>

definition apology :: jsstring where
  "apology = js ''I apologize, but I'm having trouble generating a response right now. This could be due to a temporary issue with my knowledge base or the complexity of your question. Could you please try rephrasing your question or ask something more specific? I'm here to help and want to provide you with the best possible assistance.''"

definition importPayloads :: "message_payload list" where
  "importPayloads =
     [\<lparr>p_content = js ''first'', p_sender = Some (js ''u1'')\<rparr>,
      \<lparr>p_content = js ''second'', p_sender = None\<rparr>,
      \<lparr>p_content = js ''third'', p_sender = Some (js ''system'')\<rparr>]"

text \<open>
  A regular-expression engine for the patterns made of literal code units and dots, matched
  anywhere in the string and without regard to case, the dot standing for any code unit
  but a line terminator. A pattern that starts with a quantifier is rejected, as the
  constructor rejects it (``nothing to repeat''). On these patterns it is what
  \<open>new RegExp(pattern, 'i')\<close> does; it is used at no other pattern.
\<close>

definition isLineTerminator :: "16 word \<Rightarrow> bool" where
  "isLineTerminator c = (c \<in> {0x0A, 0x0D, 0x2028, 0x2029})"

fun matchHere :: "jsstring \<Rightarrow> jsstring \<Rightarrow> bool" where
  "matchHere [] s = True"
| "matchHere (p # ps) [] = False"
| "matchHere (p # ps) (c # cs) =
     ((if p = 0x2E then \<not> isLineTerminator c else lowerUnit p = lowerUnit c)
      \<and> matchHere ps cs)"

fun matchAnywhere :: "jsstring \<Rightarrow> jsstring \<Rightarrow> bool" where
  "matchAnywhere p [] = matchHere p []"
| "matchAnywhere p (c # cs) = (matchHere p (c # cs) \<or> matchAnywhere p cs)"

definition dotRegExp :: "jsstring \<Rightarrow> (jsstring \<Rightarrow> bool) option" where
  "dotRegExp pattern =
     (case pattern of
        [] \<Rightarrow> Some (\<lambda>s. True)
      | c # cs \<Rightarrow> if c \<in> {0x2A, 0x2B, 0x3F} then None else Some (matchAnywhere pattern))"

section \<open>Properties of the response enhancer\<close>

lemma includesStr_iff: "includesStr s sub \<longleftrightarrow> (\<exists>p q. s = p @ sub @ q)"
proof (induction s)
  case Nil
  then show ?case by auto
next
  case (Cons c cs)
  show ?case
  proof
    assume "includesStr (c # cs) sub"
    then consider "prefix sub (c # cs)" | "includesStr cs sub" by auto
    then show "\<exists>p q. c # cs = p @ sub @ q"
    proof cases
      case 1
      then obtain q where "c # cs = sub @ q" by (auto simp: prefix_def)
      then have "c # cs = [] @ sub @ q" by simp
      then show ?thesis by blast
    next
      case 2
      with Cons.IH obtain p q where "cs = p @ sub @ q" by blast
      then have "c # cs = (c # p) @ sub @ q" by simp
      then show ?thesis by blast
    qed
  next
    assume "\<exists>p q. c # cs = p @ sub @ q"
    then obtain p q where pq: "c # cs = p @ sub @ q" by blast
    show "includesStr (c # cs) sub"
    proof (cases p)
      case Nil
      with pq have "prefix sub (c # cs)" by (simp add: prefix_def)
      then show ?thesis by simp
    next
      case (Cons a p')
      with pq have "cs = p' @ sub @ q" by simp
      with Cons.IH have "includesStr cs sub" by blast
      then show ?thesis by simp
    qed
  qed
qed

lemma degradedAnswer_length: "length degradedAnswer = 418"
  by (simp add: degradedAnswer_def js_def)

lemma enhancedResponses_keys_short:
  "(k, v) \<in> set enhancedResponses \<Longrightarrow> length k \<le> 200"
  by (auto simp: enhancedResponses_def js_def)

lemma enhancedResponses_values_truthy:
  "(k, v) \<in> set enhancedResponses \<Longrightarrow> truthy v"
  by (auto simp: enhancedResponses_def js_def truthy_def)

lemma enhancedResponses_distinct: "distinct (map fst enhancedResponses)"
  by (simp add: enhancedResponses_def js_def)

text \<open>
  C3. An answer of more than 200 code units is returned as it is, whatever the query.
\<close>

theorem enhanceResponse_long_unchanged:
  "length candidateAnswer > 200 \<Longrightarrow> enhanceResponse candidateAnswer q = JSString candidateAnswer"
  by (simp add: enhanceResponse_def)

theorem enhanceResponse_long_unchanged_witness:
  "length degradedAnswer > 200 \<and>
   enhanceResponse degradedAnswer (js ''Hello'') = JSString degradedAnswer"
  using enhanceResponse_long_unchanged [of degradedAnswer "js ''Hello''"]
  by (simp add: degradedAnswer_length)

text \<open>
  C4. An answer that is one of the keys of \<open>enhancedResponses\<close> (each of them at most
  200 code units long) is replaced by the value stored under that key, whatever the query.
\<close>

theorem enhanceResponse_boilerplate:
  assumes "(k, v) \<in> set enhancedResponses"
  shows "length k \<le> 200 \<and> enhanceResponse k q = JSString v"
proof -
  have short: "length k \<le> 200" using assms by (rule enhancedResponses_keys_short)
  have "map_of enhancedResponses k = Some v"
    using enhancedResponses_distinct assms by (rule map_of_is_SomeI)
  then have "getProperty enhancedResponses k = Some (JSString v)"
    by (simp add: getProperty_def)
  moreover have "truthy v" using assms by (rule enhancedResponses_values_truthy)
  ultimately have "enhanceResponse k q = JSString v"
    using short by (simp add: enhanceResponse_def)
  with short show ?thesis by simp
qed

theorem enhanceResponse_boilerplate_witness:
  "(js ''I received your message.'',
    js ''Thank you for your message! I'd be happy to help you with any questions or topics you'd like to discuss. Could you please provide more details about what you'd like to know? The more specific you are, the better I can assist you.'')
     \<in> set enhancedResponses
   \<and> enhanceResponse (js ''I received your message.'') (js ''hello and help'')
     = JSString (js ''Thank you for your message! I'd be happy to help you with any questions or topics you'd like to discuss. Could you please provide more details about what you'd like to know? The more specific you are, the better I can assist you.'')"
proof -
  have mem: "(js ''I received your message.'',
    js ''Thank you for your message! I'd be happy to help you with any questions or topics you'd like to discuss. Could you please provide more details about what you'd like to know? The more specific you are, the better I can assist you.'')
     \<in> set enhancedResponses"
    by (simp add: enhancedResponses_def)
  from enhanceResponse_boilerplate [OF mem, of "js ''hello and help''"] mem
  show ?thesis by simp
qed

subsection \<open>Short answers outside the table\<close>

text \<open>
  A short answer that is neither a key of the table nor the name of a member of
  \<open>Object.prototype\<close> is replaced according to the query: the categories are tried in
  the order greeting, help, thanks, farewell, and the first that matches decides.
\<close>

lemma enhanceResponse_short_unknown:
  assumes "length a \<le> 200" and "a \<notin> fst ` set enhancedResponses"
    and "a \<notin> set objectPrototypeKeys"
  shows "enhanceResponse a q = JSString (enhanceByQuery a q)"
proof -
  from assms(2) have "map_of enhancedResponses a = None"
    by (simp add: map_of_eq_None_iff)
  with assms(3) have "getProperty enhancedResponses a = None"
    by (simp add: getProperty_def)
  with assms(1) show ?thesis by (simp add: enhanceResponse_def)
qed

lemma enhanceByQuery_order:
  "enhanceByQuery a q =
     (if includesStr (toLowerCase q) (js ''hello'') \<or> includesStr (toLowerCase q) (js ''hi'')
        then greetingReply
      else if includesStr (toLowerCase q) (js ''help'') \<or> includesStr (toLowerCase q) (js ''assist'')
        then helpReply
      else if includesStr (toLowerCase q) (js ''thanks'')
              \<or> includesStr (toLowerCase q) (js ''thank you'')
        then thanksReply
      else if includesStr (toLowerCase q) (js ''bye'') \<or> includesStr (toLowerCase q) (js ''goodbye'')
        then farewellReply
      else a @ genericSuffix)"
  by (simp add: enhanceByQuery_def Let_def)

lemma enhanceResponse_hello_and_help:
  "enhanceResponse (js ''OK.'') (js ''hello and help'') = JSString greetingReply"
  by (simp add: enhanceResponse_def getProperty_def enhancedResponses_def
      objectPrototypeKeys_def enhanceByQuery_def toLowerCase_def js_def lowerUnit_def)

text \<open>
  C5 at the answer \<open>constructor\<close>. It is short and no key of the table, and the query
  \<open>hello and help\<close> contains \<open>hello\<close>; yet the property read finds the member
  that the table inherits, and \<open>enhanceResponse\<close> returns it instead of the greeting.
\<close>

theorem enhanceResponse_inherited_member:
  "length (js ''constructor'') \<le> 200
   \<and> js ''constructor'' \<notin> fst ` set enhancedResponses
   \<and> includesStr (toLowerCase (js ''hello and help'')) (js ''hello'')
   \<and> enhanceResponse (js ''constructor'') (js ''hello and help'') = Inherited (js ''constructor'')
   \<and> enhanceResponse (js ''constructor'') (js ''hello and help'') \<noteq> JSString greetingReply"
  by (simp add: enhanceResponse_def getProperty_def enhancedResponses_def
      objectPrototypeKeys_def toLowerCase_def lowerUnit_def js_def)

lemma composeAnswer_constructor:
  "composeAnswer (js ''constructor'') q =
     Inl (TypeError ''enhancedResponse.substring is not a function'')"
  by (simp add: composeAnswer_def truthy_def enhanceResponse_def getProperty_def
      enhancedResponses_def objectPrototypeKeys_def js_def)

section \<open>Properties of the retrieval client\<close>

lemma disabledService_enabled: "enabled disabledService = False"
  by (simp add: disabledService_def newEmbeddingService_def)

lemma enabledService_enabled: "enabled enabledService = True"
  by (simp add: enabledService_def newEmbeddingService_def truthy_def js_def)

text \<open>
  C1. \<open>getRAGResponse\<close> always returns a value. Without an endpoint it returns the
  fixed answer \<open>degradedAnswer\<close>, which is not empty, with a context that names the
  disabled service; when the HTTP call is rejected, with whatever error, it returns the
  same answer with the context \<open>Error retrieving context\<close>; when the call succeeds it
  returns the data of the response as they are.
\<close>

theorem getRAGResponse_fail_open:
  "(\<exists>r. fst (getRAGResponse svc net userId query threadId w) = Inr r)
   \<and> (\<not> enabled svc \<longrightarrow>
        fst (getRAGResponse svc net userId query threadId w) =
          Inr \<lparr>rag_answer = Some degradedAnswer,
               rag_context = Some (js ''Embedding Service disabled: No API URL available''),
               rag_responseId = None\<rparr>)
   \<and> (enabled svc \<longrightarrow>
        (\<forall>e. ragApi net \<lparr>rq_userId = userId, rq_threadId = threadId, rq_query = query\<rparr> = Inl e \<longrightarrow>
          fst (getRAGResponse svc net userId query threadId w) =
            Inr \<lparr>rag_answer = Some degradedAnswer,
                 rag_context = Some (js ''Error retrieving context''),
                 rag_responseId = None\<rparr>))
   \<and> (enabled svc \<longrightarrow>
        (\<forall>d. ragApi net \<lparr>rq_userId = userId, rq_threadId = threadId, rq_query = query\<rparr> = Inr d \<longrightarrow>
          fst (getRAGResponse svc net userId query threadId w) = Inr d))
   \<and> degradedAnswer \<noteq> []
   \<and> includesStr (js ''Embedding Service disabled: No API URL available'') (js ''disabled'')
   \<and> includesStr (js ''Error retrieving context'') (js ''Error'')"
proof (intro conjI impI allI)
  show "\<exists>r. fst (getRAGResponse svc net userId query threadId w) = Inr r"
    by (cases "ragApi net \<lparr>rq_userId = userId, rq_threadId = threadId, rq_query = query\<rparr>")
       (simp_all add: getRAGResponse_def tryCatch_def Let_def)
next
  assume "\<not> enabled svc"
  then show "fst (getRAGResponse svc net userId query threadId w) =
          Inr \<lparr>rag_answer = Some degradedAnswer,
               rag_context = Some (js ''Embedding Service disabled: No API URL available''),
               rag_responseId = None\<rparr>"
    by (simp add: getRAGResponse_def degradedAnswer_def)
next
  fix e
  assume "enabled svc"
    and "ragApi net \<lparr>rq_userId = userId, rq_threadId = threadId, rq_query = query\<rparr> = Inl e"
  then show "fst (getRAGResponse svc net userId query threadId w) =
            Inr \<lparr>rag_answer = Some degradedAnswer,
                 rag_context = Some (js ''Error retrieving context''),
                 rag_responseId = None\<rparr>"
    by (simp add: getRAGResponse_def tryCatch_def Let_def degradedAnswer_def)
next
  fix d
  assume "enabled svc"
    and "ragApi net \<lparr>rq_userId = userId, rq_threadId = threadId, rq_query = query\<rparr> = Inr d"
  then show "fst (getRAGResponse svc net userId query threadId w) = Inr d"
    by (simp add: getRAGResponse_def tryCatch_def Let_def)
next
  show "degradedAnswer \<noteq> []" by (simp add: degradedAnswer_def js_def)
next
  show "includesStr (js ''Embedding Service disabled: No API URL available'') (js ''disabled'')"
    by (simp add: js_def)
next
  show "includesStr (js ''Error retrieving context'') (js ''Error'')"
    by (simp add: js_def)
qed

theorem getRAGResponse_fail_open_witness:
  "\<not> enabled disabledService
   \<and> fst (getRAGResponse disabledService failingNetwork (js ''u1'') (js ''Hello'') None emptyWorld) =
       Inr \<lparr>rag_answer = Some degradedAnswer,
            rag_context = Some (js ''Embedding Service disabled: No API URL available''),
            rag_responseId = None\<rparr>
   \<and> enabled enabledService
   \<and> ragApi failingNetwork \<lparr>rq_userId = js ''u1'', rq_threadId = None, rq_query = js ''Hello''\<rparr>
       = Inl (AxiosError (Some 500) (js ''Request failed with status code 500''))
   \<and> fst (getRAGResponse enabledService failingNetwork (js ''u1'') (js ''Hello'') None emptyWorld) =
       Inr \<lparr>rag_answer = Some degradedAnswer,
            rag_context = Some (js ''Error retrieving context''),
            rag_responseId = None\<rparr>
   \<and> ragApi answeringNetwork \<lparr>rq_userId = js ''u1'', rq_threadId = None, rq_query = js ''Hello''\<rparr>
       = Inr parisResponse
   \<and> fst (getRAGResponse enabledService answeringNetwork (js ''u1'') (js ''Hello'') None emptyWorld) =
       Inr parisResponse"
  using getRAGResponse_fail_open [of disabledService failingNetwork "js ''u1''" "js ''Hello''" None emptyWorld]
    getRAGResponse_fail_open [of enabledService failingNetwork "js ''u1''" "js ''Hello''" None emptyWorld]
    getRAGResponse_fail_open [of enabledService answeringNetwork "js ''u1''" "js ''Hello''" None emptyWorld]
  by (simp add: disabledService_enabled enabledService_enabled failingNetwork_def answeringNetwork_def)

section \<open>Properties of thread resolution\<close>

lemma mostRecentlyUpdated_None: "mostRecentlyUpdated ts = None \<longleftrightarrow> ts = []"
  by (induction ts) (auto split: option.splits)

lemma mostRecentlyUpdated_Some:
  "mostRecentlyUpdated ts = Some t \<Longrightarrow>
     t \<in> set ts \<and> (\<forall>u\<in>set ts. t_updatedAt u \<le> t_updatedAt t)"
proof (induction ts arbitrary: t)
  case Nil
  then show ?case by simp
next
  case (Cons a ts)
  show ?case
  proof (cases "mostRecentlyUpdated ts")
    case None
    then have "ts = []" by (simp add: mostRecentlyUpdated_None)
    with Cons.prems show ?thesis by simp
  next
    case (Some u)
    with Cons.IH have u: "u \<in> set ts" "\<forall>x\<in>set ts. t_updatedAt x \<le> t_updatedAt u" by auto
    show ?thesis
    proof (cases "t_updatedAt a < t_updatedAt u")
      case True
      with Some Cons.prems have "t = u" by simp
      with u True show ?thesis by auto
    next
      case False
      with Some Cons.prems have "t = a" by simp
      with u False show ?thesis by fastforce
    qed
  qed
qed

text \<open>
  C6. Resolving a turn that names no thread. If the user has no active thread, one thread
  is created and added to the store: active, created by the user, titled with the first 50
  code units of the content, followed by three dots exactly when the content is longer than
  50. If the user has an active thread, the result is one of them with the greatest
  \<open>updatedAt\<close>, and no thread is created.
\<close>

theorem resolveThread_find_or_create:
  "((\<forall>t\<in>set (threads w). \<not> (t_userId t = userId \<and> t_isActive t)) \<longrightarrow>
      (\<exists>t w'. resolveThread Absent userId content w = (Inr t, w')
         \<and> t_isActive t \<and> t_createdBy t = userId \<and> t_userId t = userId
         \<and> t_title t = take 50 content @ (if 50 < length content then js ''...'' else [])
         \<and> threads w' = threads w @ [t]
         \<and> trace w' = trace w @ [ThreadFindOne userId, ThreadCreate (t_id t)]))
   \<and> ((\<exists>t\<in>set (threads w). t_userId t = userId \<and> t_isActive t) \<longrightarrow>
      (\<exists>t w'. resolveThread Absent userId content w = (Inr t, w')
         \<and> t \<in> set (threads w) \<and> t_userId t = userId \<and> t_isActive t
         \<and> (\<forall>u\<in>set (threads w). t_userId u = userId \<and> t_isActive u \<longrightarrow>
               t_updatedAt u \<le> t_updatedAt t)
         \<and> threads w' = threads w
         \<and> trace w' = trace w @ [ThreadFindOne userId]))"
proof (intro conjI impI)
  assume none: "\<forall>t\<in>set (threads w). \<not> (t_userId t = userId \<and> t_isActive t)"
  then have "filter (\<lambda>t. t_userId t = userId \<and> t_isActive t) (threads w) = []"
    by (simp add: filter_empty_conv)
  then have "Thread_findOne userId w = (None, logEvent (ThreadFindOne userId) w)"
    by (simp add: Thread_findOne_def)
  then show "\<exists>t w'. resolveThread Absent userId content w = (Inr t, w')
         \<and> t_isActive t \<and> t_createdBy t = userId \<and> t_userId t = userId
         \<and> t_title t = take 50 content @ (if 50 < length content then js ''...'' else [])
         \<and> threads w' = threads w @ [t]
         \<and> trace w' = trace w @ [ThreadFindOne userId, ThreadCreate (t_id t)]"
    by (simp add: resolveThread_def Thread_create_def logEvent_def substring0_def Let_def)
next
  assume "\<exists>t\<in>set (threads w). t_userId t = userId \<and> t_isActive t"
  then have ne: "filter (\<lambda>t. t_userId t = userId \<and> t_isActive t) (threads w) \<noteq> []"
    by (simp add: filter_empty_conv)
  then obtain t where t:
    "mostRecentlyUpdated (filter (\<lambda>t. t_userId t = userId \<and> t_isActive t) (threads w)) = Some t"
    using mostRecentlyUpdated_None by fastforce
  from mostRecentlyUpdated_Some [OF t]
  have props: "t \<in> set (threads w)" "t_userId t = userId" "t_isActive t"
    "\<forall>u\<in>set (threads w). t_userId u = userId \<and> t_isActive u \<longrightarrow> t_updatedAt u \<le> t_updatedAt t"
    by auto
  from t have "resolveThread Absent userId content w = (Inr t, logEvent (ThreadFindOne userId) w)"
    by (simp add: resolveThread_def Thread_findOne_def)
  with props show "\<exists>t w'. resolveThread Absent userId content w = (Inr t, w')
         \<and> t \<in> set (threads w) \<and> t_userId t = userId \<and> t_isActive t
         \<and> (\<forall>u\<in>set (threads w). t_userId u = userId \<and> t_isActive u \<longrightarrow>
               t_updatedAt u \<le> t_updatedAt t)
         \<and> threads w' = threads w
         \<and> trace w' = trace w @ [ThreadFindOne userId]"
    by (simp add: logEvent_def)
qed

theorem resolveThread_find_or_create_witness:
  "fst (resolveThread Absent (js ''u1'') longContent emptyWorld) =
     Inr \<lparr>t_id = 0, t_userId = js ''u1'',
          t_title = js ''Please remind me what we discussed about the IoT d...'',
          t_isActive = True, t_createdBy = js ''u1'', t_createdAt = 0, t_updatedAt = 0\<rparr>
   \<and> length (threads (snd (resolveThread Absent (js ''u1'') longContent emptyWorld))) = 1
   \<and> fst (resolveThread Absent (js ''u1'') (js ''Hello'') busyWorld) = Inr threadB
   \<and> threads (snd (resolveThread Absent (js ''u1'') (js ''Hello'') busyWorld)) = threads busyWorld"
proof -
  have none: "\<forall>t\<in>set (threads emptyWorld). \<not> (t_userId t = js ''u1'' \<and> t_isActive t)"
    by (simp add: emptyWorld_def)
  have some: "\<exists>t\<in>set (threads busyWorld). t_userId t = js ''u1'' \<and> t_isActive t"
    by (simp add: busyWorld_def threadA_def)
  from resolveThread_find_or_create [of emptyWorld "js ''u1''" longContent] none
  obtain t w' where created:
    "resolveThread Absent (js ''u1'') longContent emptyWorld = (Inr t, w')"
    "threads w' = threads emptyWorld @ [t]"
    by blast
  from resolveThread_find_or_create [of busyWorld "js ''u1''" "js ''Hello''"] some
  obtain u w'' where found:
    "resolveThread Absent (js ''u1'') (js ''Hello'') busyWorld = (Inr u, w'')"
    "threads w'' = threads busyWorld"
    by blast
  have "fst (resolveThread Absent (js ''u1'') longContent emptyWorld) =
     Inr \<lparr>t_id = 0, t_userId = js ''u1'',
          t_title = js ''Please remind me what we discussed about the IoT d...'',
          t_isActive = True, t_createdBy = js ''u1'', t_createdAt = 0, t_updatedAt = 0\<rparr>"
    by (simp add: resolveThread_def Thread_findOne_def Thread_create_def emptyWorld_def
        logEvent_def substring0_def longContent_def Let_def js_def)
  moreover have "fst (resolveThread Absent (js ''u1'') (js ''Hello'') busyWorld) = Inr threadB"
    by (simp add: resolveThread_def Thread_findOne_def busyWorld_def threadA_def threadB_def
        threadC_def js_def)
  moreover from created have
    "length (threads (snd (resolveThread Absent (js ''u1'') longContent emptyWorld))) = 1"
    by (simp add: emptyWorld_def)
  moreover from found have
    "threads (snd (resolveThread Absent (js ''u1'') (js ''Hello'') busyWorld)) = threads busyWorld"
    by simp
  ultimately show ?thesis by simp
qed

section \<open>Properties of the turn\<close>

lemma degradedAnswer_truthy: "truthy degradedAnswer"
  using degradedAnswer_length by (auto simp: truthy_def)

lemma indexMessage_eq:
  "indexMessage svc net userId content tid mid w =
     (if enabled svc
      then logEvent (PostEmbed \<lparr>eq_userId = userId, eq_threadId = Some tid, eq_content = content,
                                eq_messageId = Some mid\<rparr>) w
      else w)"
  by (simp add: indexMessage_def createEmbedding_def isEnabled_def Let_def
      split: sum.splits prod.splits)

lemma fetchRAG_disabled:
  "\<not> enabled svc \<Longrightarrow>
   fetchRAG svc net userId content threadId w =
     ((degradedAnswer, js ''Embedding Service disabled: No API URL available'', []), w)"
  by (simp add: fetchRAG_def getRAGResponse_def orElse_def degradedAnswer_def truthy_def js_def)

lemma fetchRAG_world:
  "snd (fetchRAG svc net userId content threadId w) =
     (if enabled svc
      then logEvent (PostRagGenerate \<lparr>rq_userId = userId, rq_threadId = threadId,
                                      rq_query = content\<rparr>) w
      else w)"
  by (simp add: fetchRAG_def getRAGResponse_def Let_def split: sum.splits prod.splits)

lemma getProperty_JSString:
  "getProperty enhancedResponses a = Some (JSString s) \<Longrightarrow> s \<noteq> []"
proof -
  assume "getProperty enhancedResponses a = Some (JSString s)"
  then have "map_of enhancedResponses a = Some s"
    by (auto simp: getProperty_def split: option.splits if_splits)
  then have "(a, s) \<in> set enhancedResponses" by (rule map_of_SomeD)
  then have "truthy s" by (rule enhancedResponses_values_truthy)
  then show ?thesis by (simp add: truthy_def)
qed

lemma enhanceByQuery_nonempty: "enhanceByQuery a q \<noteq> []"
  by (simp add: enhanceByQuery_def Let_def greetingReply_def helpReply_def thanksReply_def
      farewellReply_def genericSuffix_def js_def)

lemma enhanceResponse_nonempty:
  assumes "a \<noteq> []" and "enhanceResponse a q = JSString s"
  shows "s \<noteq> []"
proof (cases "200 < length a")
  case True
  with assms show ?thesis by (simp add: enhanceResponse_def)
next
  case False
  show ?thesis
  proof (cases "getProperty enhancedResponses a")
    case None
    with False assms(2) have "s = enhanceByQuery a q" by (simp add: enhanceResponse_def)
    then show ?thesis by (simp add: enhanceByQuery_nonempty)
  next
    case (Some v)
    show ?thesis
    proof (cases v)
      case (JSString x)
      with Some have "x \<noteq> []" by (simp add: getProperty_JSString)
      with JSString Some False assms(2) show ?thesis
        by (simp add: enhanceResponse_def truthy_def)
    next
      case (Inherited k)
      with Some False assms(2) show ?thesis by (simp add: enhanceResponse_def)
    qed
  qed
qed

lemma composeAnswer_nonempty:
  assumes "composeAnswer ragAnswer content = Inr s"
  shows "s \<noteq> []"
proof (cases "truthy ragAnswer")
  case True
  with assms have "enhanceResponse ragAnswer content = JSString s"
    by (simp add: composeAnswer_def split: jsvalue.splits)
  moreover from True have "ragAnswer \<noteq> []" by (simp add: truthy_def)
  ultimately show ?thesis using enhanceResponse_nonempty by blast
next
  case False
  with assms
  have "enhanceResponse (js ''Sorry, I could not generate a response.'') content = JSString s"
    by (simp add: composeAnswer_def split: jsvalue.splits)
  moreover have "js ''Sorry, I could not generate a response.'' \<noteq> []" by (simp add: js_def)
  ultimately show ?thesis using enhanceResponse_nonempty by blast
qed

lemma composeAnswer_degraded: "composeAnswer degradedAnswer content = Inr degradedAnswer"
  by (simp add: composeAnswer_def degradedAnswer_truthy enhanceResponse_def degradedAnswer_length)

lemma composeAnswer_empty:
  "composeAnswer [] content =
     Inr (js ''I apologize, but I'm having trouble generating a response right now. This could be due to a temporary issue with my knowledge base or the complexity of your question. Could you please try rephrasing your question or ask something more specific? I'm here to help and want to provide you with the best possible assistance.'')"
  by (simp add: composeAnswer_def truthy_def enhanceResponse_def getProperty_def
      enhancedResponses_def js_def)

lemma createTurn_answer_nonempty:
  assumes "createTurn svc net req w = (Inr resp, w')"
  shows "r_answer resp \<noteq> [] \<and> messages w' \<noteq> []
     \<and> m_content (last (messages w')) = r_answer resp
     \<and> m_sender (last (messages w')) = js ''system''"
  using assms unfolding createTurn_def
  by (auto simp: Let_def Message_save_def Thread_findByIdAndUpdate_def indexMessage_eq
      logEvent_def composeAnswer_nonempty split: if_splits prod.splits sum.splits)

lemma fetchRAG_missing_answer:
  assumes "enabled svc"
    and "ragApi net \<lparr>rq_userId = userId, rq_threadId = threadId, rq_query = content\<rparr> = Inr d"
    and "rag_answer d = None \<or> rag_answer d = Some []"
  shows "fst (fst (fetchRAG svc net userId content threadId w)) = []"
  using assms
  by (auto simp: fetchRAG_def getRAGResponse_def tryCatch_def Let_def orElse_def truthy_def)

lemma createTurn_composed:
  assumes "createTurn svc net req w = (Inr resp, w')"
  shows "\<exists>w3. composeAnswer
           (fst (fst (fetchRAG svc net (orElse (req_userId req) []) (orElse (req_content req) [])
                        None w3)))
           (orElse (req_content req) []) = Inr (r_answer resp)"
  using assms unfolding createTurn_def
  by (auto simp: Let_def split: if_splits prod.splits sum.splits) (metis fst_conv)

lemma generateOnly_composed:
  assumes "generateOnly svc net (ObjectId tid) userMessage w = (Inr resp, w')"
  shows "\<exists>w3 thread. find (\<lambda>t. t_id t = tid) (threads w) = Some thread \<and> composeAnswer
           (fst (fst (fetchRAG svc net (t_userId thread) (orElse userMessage [])
                        (Some tid) w3)))
           (orElse userMessage []) = Inr (g_answer resp)"
  using assms unfolding generateOnly_def
  by (auto simp: Let_def Thread_findById_def split: if_splits prod.splits sum.splits option.splits)
     (metis fst_conv)+

lemma generateOnly_answer_nonempty:
  assumes "generateOnly svc net threadId userMessage w = (Inr resp, w')"
  shows "g_answer resp \<noteq> [] \<and> messages w' \<noteq> []
     \<and> m_content (last (messages w')) = g_answer resp
     \<and> m_sender (last (messages w')) = js ''system''"
  using assms unfolding generateOnly_def
  by (auto simp: Let_def Message_save_def Thread_findById_def indexMessage_eq
      logEvent_def composeAnswer_nonempty split: if_splits prod.splits sum.splits id_param.splits option.splits)

lemma createEmbedding_total:
  "\<exists>r. fst (createEmbedding svc net userId content threadId messageId w) = Inr r"
  by (simp add: createEmbedding_def tryCatch_def Let_def split: sum.splits error.splits)

lemma createEmbedding_failure:
  assumes "enabled svc"
    and "embedApi net \<lparr>eq_userId = userId, eq_threadId = threadId, eq_content = content,
                        eq_messageId = messageId\<rparr> = Inl e"
  shows "\<exists>msg. fst (createEmbedding svc net userId content threadId messageId w) =
           Inr \<lparr>e_status = js ''error'', e_error = Some msg\<rparr>"
  using assms
  by (simp add: createEmbedding_def tryCatch_def Let_def split: error.splits)

lemma getRAGResponse_embedApi:
  "getRAGResponse svc (net\<lparr>embedApi := f\<rparr>) = getRAGResponse svc net"
  by (intro ext) (simp add: getRAGResponse_def)

lemma fetchRAG_embedApi:
  "fetchRAG svc (net\<lparr>embedApi := f\<rparr>) = fetchRAG svc net"
  by (intro ext) (simp add: fetchRAG_def getRAGResponse_embedApi)

lemma createTurn_embedApi:
  "createTurn svc (net\<lparr>embedApi := f\<rparr>) req w = createTurn svc net req w"
  by (simp add: createTurn_def indexMessage_eq fetchRAG_embedApi
      cong: prod.case_cong sum.case_cong if_cong)

lemma fetchRAG_worldD:
  "fetchRAG svc net userId content threadId w = (r, w') \<Longrightarrow>
     w' = (if enabled svc
           then logEvent (PostRagGenerate \<lparr>rq_userId = userId, rq_threadId = threadId,
                                           rq_query = content\<rparr>) w
           else w)"
  by (metis fetchRAG_world snd_conv)

lemma createTurn_indexes_both:
  assumes "createTurn svc net req w = (Inr resp, w')" and "enabled svc"
  shows "\<exists>aiId.
      PostEmbed \<lparr>eq_userId = orElse (req_userId req) [], eq_threadId = Some (r_threadId resp),
                 eq_content = orElse (req_content req) [],
                 eq_messageId = Some (r_messageId resp)\<rparr> \<in> set (trace w')
    \<and> PostEmbed \<lparr>eq_userId = orElse (req_userId req) [], eq_threadId = Some (r_threadId resp),
                 eq_content = r_answer resp, eq_messageId = Some aiId\<rparr> \<in> set (trace w')"
  using assms unfolding createTurn_def
  by (auto simp: Let_def Message_save_def Thread_findByIdAndUpdate_def indexMessage_eq
      logEvent_def dest!: fetchRAG_worldD split: if_splits prod.splits sum.splits)

lemma composeAnswer_Paris: "composeAnswer (js ''Paris.'') (js ''Hello'') = Inr greetingReply"
  by (simp add: composeAnswer_def truthy_def enhanceResponse_def getProperty_def
      enhancedResponses_def objectPrototypeKeys_def enhanceByQuery_def toLowerCase_def
      lowerUnit_def js_def)

lemma hello_truthy:
  "orElse (Some (js ''Hello'')) [] = js ''Hello''" "truthy (js ''Hello'')"
  "orElse (Some (js ''u1'')) [] = js ''u1''" "truthy (js ''u1'')"
  by (simp_all add: orElse_def truthy_def js_def)

lemma resolve_otherUserWorld:
  "resolveThread Absent (js ''u1'') (js ''Hello'') otherUserWorld =
     (Inr \<lparr>t_id = 3, t_userId = js ''u1'', t_title = js ''Hello'', t_isActive = True,
           t_createdBy = js ''u1'', t_createdAt = 12, t_updatedAt = 12\<rparr>,
      \<lparr>threads = [threadC, \<lparr>t_id = 3, t_userId = js ''u1'', t_title = js ''Hello'',
           t_isActive = True, t_createdBy = js ''u1'', t_createdAt = 12, t_updatedAt = 12\<rparr>],
       messages = [], nextId = 4, clock = 13,
       trace = [ThreadFindOne (js ''u1''), ThreadCreate 3]\<rparr>)"
  by (simp add: resolveThread_def Thread_findOne_def Thread_create_def otherUserWorld_def
      threadC_def logEvent_def substring0_def Let_def js_def)

lemma fetchRAG_answering:
  "fst (fetchRAG enabledService (answeringNetwork\<lparr>embedApi := embedApi failingNetwork\<rparr>)
         (js ''u1'') (js ''Hello'') None w) = (js ''Paris.'', js ''atlas'', js ''r-1'')"
  by (simp add: fetchRAG_def getRAGResponse_def enabledService_enabled answeringNetwork_def
      parisResponse_def tryCatch_def Let_def orElse_def truthy_def js_def)

lemma createTurn_run:
  assumes c: "truthy content" and u: "truthy userId"
    and r: "resolveThread tidp userId content w = (Inr thread, w1)"
    and f: "\<And>w0. fst (fetchRAG svc net userId content None w0) = (ragAnswer, ragContext, rid)"
    and a: "composeAnswer ragAnswer content = Inr enhanced"
  shows "\<exists>w'. createTurn svc net
           \<lparr>req_threadId = tidp, req_content = Some content, req_userId = Some userId,
            req_context = ctx, req_files = fs\<rparr> w =
          (Inr \<lparr>r_answer = enhanced, r_context = ragContext, r_responseId = rid,
                r_threadId = t_id thread, r_messageId = nextId w1\<rparr>, w')
        \<and> messages w' = messages w1 @
            [\<lparr>m_id = nextId w1, m_threadId = t_id thread, m_content = content,
              m_sender = userId, m_files = (case fs of None \<Rightarrow> [] | Some x \<Rightarrow> x),
              m_createdAt = clock w1, m_updatedAt = clock w1\<rparr>,
             \<lparr>m_id = nextId w1 + 1, m_threadId = t_id thread, m_content = enhanced,
              m_sender = js ''system'', m_files = [],
              m_createdAt = clock w1 + 1, m_updatedAt = clock w1 + 1\<rparr>]"
proof -
  have cu: "orElse (Some content) [] = content" "orElse (Some userId) [] = userId"
    using c u by (simp_all add: orElse_def)
  show ?thesis
    unfolding createTurn_def
    by (simp add: cu c u r f a case_prod_beta Let_def Message_save_def indexMessage_eq
        fetchRAG_world logEvent_def Thread_findByIdAndUpdate_def)
qed

lemma turn_flaky:
  "\<exists>w'. createTurn enabledService (answeringNetwork\<lparr>embedApi := embedApi failingNetwork\<rparr>)
       helloRequest otherUserWorld
     = (Inr \<lparr>r_answer = greetingReply, r_context = js ''atlas'', r_responseId = js ''r-1'',
            r_threadId = 3, r_messageId = 4\<rparr>, w')"
  using createTurn_run [OF hello_truthy(2) hello_truthy(4) resolve_otherUserWorld
      fetchRAG_answering composeAnswer_Paris, of None None]
  unfolding helloRequest_def by auto

text \<open>
  C2. The turn \<open>createTurn(content = "Hello", userId = "u1")\<close>, run without an endpoint
  on a store in which u1 has no active thread, succeeds. Its answer is \<open>degradedAnswer\<close>,
  which is longer than 200 code units; its thread is new, and one thread has been added to
  the store; the thread holds exactly two messages afterwards, the user's, whose id is the
  \<open>messageId\<close> of the response, and the assistant's.
\<close>

theorem createTurn_hello_disabled:
  assumes dis: "\<not> enabled svc"
    and fresh: "freshIds w"
    and none: "\<forall>t\<in>set (threads w). \<not> (t_userId t = js ''u1'' \<and> t_isActive t)"
  shows "\<exists>resp w' t um am.
      createTurn svc net
        \<lparr>req_threadId = Absent, req_content = Some (js ''Hello''), req_userId = Some (js ''u1''),
         req_context = ctx, req_files = fs\<rparr> w = (Inr resp, w')
      \<and> r_answer resp = degradedAnswer \<and> 200 < length degradedAnswer
      \<and> r_context resp = js ''Embedding Service disabled: No API URL available''
      \<and> r_responseId resp = []
      \<and> r_threadId resp \<notin> t_id ` set (threads w)
      \<and> threads w' = threads w @ [t]
      \<and> t_id t = r_threadId resp \<and> t_userId t = js ''u1'' \<and> t_isActive t
      \<and> t_title t = js ''Hello''
      \<and> filter (\<lambda>m. m_threadId m = r_threadId resp) (messages w') = [um, am]
      \<and> m_id um = r_messageId resp \<and> m_content um = js ''Hello'' \<and> m_sender um = js ''u1''
      \<and> m_content am = degradedAnswer \<and> m_sender am = js ''system''"
proof -
  let ?n = "nextId w"
  have nofind: "filter (\<lambda>t. t_userId t = js ''u1'' \<and> t_isActive t) (threads w) = []"
    using none by (simp add: filter_empty_conv)
  have old_threads: "\<forall>t\<in>set (threads w). t_id t \<noteq> ?n"
    using fresh by (auto simp: freshIds_def)
  have old_msgs: "filter (\<lambda>m. m_threadId m = ?n) (messages w) = []"
    using fresh by (auto simp: freshIds_def filter_empty_conv)
  have untouched: "map (\<lambda>t. if t_id t = ?n then t\<lparr>t_updatedAt := c\<rparr> else t) (threads w) = threads w" for c
    using old_threads by (simp add: map_idI)
  have hello: "orElse (Some (js ''Hello'')) [] = js ''Hello''" "truthy (js ''Hello'')"
    "orElse (Some (js ''u1'')) [] = js ''u1''" "truthy (js ''u1'')"
    by (simp_all add: orElse_def truthy_def js_def)
  have title: "substring0 (js ''Hello'') 50 @ (if 50 < length (js ''Hello'') then js ''...'' else [])
      = js ''Hello''"
    by (simp add: substring0_def js_def)
  have resolve: "resolveThread Absent (js ''u1'') (js ''Hello'') w =
      (Inr \<lparr>t_id = ?n, t_userId = js ''u1'', t_title = js ''Hello'', t_isActive = True,
            t_createdBy = js ''u1'', t_createdAt = clock w, t_updatedAt = clock w\<rparr>,
       w\<lparr>threads := threads w @ [\<lparr>t_id = ?n, t_userId = js ''u1'', t_title = js ''Hello'',
            t_isActive = True, t_createdBy = js ''u1'', t_createdAt = clock w,
            t_updatedAt = clock w\<rparr>],
          nextId := ?n + 1, clock := clock w + 1,
          trace := trace w @ [ThreadFindOne (js ''u1''), ThreadCreate ?n]\<rparr>)"
    unfolding resolveThread_def Thread_findOne_def nofind
    by (simp add: title Thread_create_def logEvent_def Let_def)
  have run: "createTurn svc net
        \<lparr>req_threadId = Absent, req_content = Some (js ''Hello''), req_userId = Some (js ''u1''),
         req_context = ctx, req_files = fs\<rparr> w =
      (Inr \<lparr>r_answer = degradedAnswer,
            r_context = js ''Embedding Service disabled: No API URL available'',
            r_responseId = [], r_threadId = ?n, r_messageId = ?n + 1\<rparr>,
       w\<lparr>threads := threads w @ [\<lparr>t_id = ?n, t_userId = js ''u1'', t_title = js ''Hello'',
            t_isActive = True, t_createdBy = js ''u1'', t_createdAt = clock w,
            t_updatedAt = clock w + 3\<rparr>],
          messages := messages w @
            [\<lparr>m_id = ?n + 1, m_threadId = ?n, m_content = js ''Hello'', m_sender = js ''u1'',
              m_files = (case fs of None \<Rightarrow> [] | Some x \<Rightarrow> x),
              m_createdAt = clock w + 1, m_updatedAt = clock w + 1\<rparr>,
             \<lparr>m_id = ?n + 2, m_threadId = ?n, m_content = degradedAnswer,
              m_sender = js ''system'', m_files = [],
              m_createdAt = clock w + 2, m_updatedAt = clock w + 2\<rparr>],
          nextId := ?n + 3, clock := clock w + 4,
          trace := trace w @ [ThreadFindOne (js ''u1''), ThreadCreate ?n, MessageSave (?n + 1),
                              MessageSave (?n + 2), ThreadUpdate ?n]\<rparr>)"
    unfolding createTurn_def
    by (simp add: hello resolve Message_save_def indexMessage_eq dis fetchRAG_disabled
        composeAnswer_degraded Thread_findByIdAndUpdate_def untouched Let_def)
  show ?thesis
    unfolding run
    using old_threads old_msgs by (auto simp: degradedAnswer_length)
qed

theorem createTurn_hello_disabled_witness:
  "\<not> enabled disabledService \<and> freshIds otherUserWorld
   \<and> (\<exists>resp w'. createTurn disabledService failingNetwork helloRequest otherUserWorld = (Inr resp, w')
        \<and> r_answer resp = degradedAnswer
        \<and> map m_content (filter (\<lambda>m. m_threadId m = r_threadId resp) (messages w'))
            = [js ''Hello'', degradedAnswer])"
proof -
  have dis: "\<not> enabled disabledService" by (simp add: disabledService_enabled)
  have fresh: "freshIds otherUserWorld"
    by (simp add: freshIds_def otherUserWorld_def threadC_def)
  have none: "\<forall>t\<in>set (threads otherUserWorld). \<not> (t_userId t = js ''u1'' \<and> t_isActive t)"
    by (simp add: otherUserWorld_def threadC_def js_def)
  from createTurn_hello_disabled [OF dis fresh none, of failingNetwork None None]
  obtain resp w' t um am where
    "createTurn disabledService failingNetwork helloRequest otherUserWorld = (Inr resp, w')"
    "r_answer resp = degradedAnswer"
    "filter (\<lambda>m. m_threadId m = r_threadId resp) (messages w') = [um, am]"
    "m_content um = js ''Hello''" "m_content am = degradedAnswer"
    unfolding helloRequest_def by blast
  with dis fresh show ?thesis by auto
qed

section \<open>Properties of the embedding indexer\<close>

text \<open>
  C9, as the code has it. \<open>createEmbedding\<close> always returns a value. Without an endpoint
  it sends nothing and returns the status \<open>error\<close> with the message
  \<open>Embedding Service is disabled: No API URL available\<close>; when the HTTP call is rejected
  it returns a result of the same shape, the status \<open>error\<close> with a message. A turn does
  not depend on what the indexing backend does: its result and its final store are the
  same for every \<open>embedApi\<close>; and a turn that succeeds with the service enabled has
  sent both indexing requests, for the user's message and for the assistant's.
\<close>

theorem createEmbedding_never_raises:
  "(\<exists>r. fst (createEmbedding svc net userId content threadId messageId w) = Inr r)
   \<and> (\<not> enabled svc \<longrightarrow>
        createEmbedding svc net userId content threadId messageId w =
          (Inr \<lparr>e_status = js ''error'',
                e_error = Some (js ''Embedding Service is disabled: No API URL available'')\<rparr>, w))
   \<and> (enabled svc \<longrightarrow>
        (\<forall>e. embedApi net \<lparr>eq_userId = userId, eq_threadId = threadId, eq_content = content,
                           eq_messageId = messageId\<rparr> = Inl e \<longrightarrow>
           (\<exists>msg. fst (createEmbedding svc net userId content threadId messageId w) =
              Inr \<lparr>e_status = js ''error'', e_error = Some msg\<rparr>)))
   \<and> createTurn svc (net\<lparr>embedApi := f\<rparr>) req tw = createTurn svc net req tw
   \<and> (\<forall>resp tw'. enabled svc \<and> createTurn svc net req tw = (Inr resp, tw') \<longrightarrow>
        (\<exists>aiId.
           PostEmbed \<lparr>eq_userId = orElse (req_userId req) [], eq_threadId = Some (r_threadId resp),
                      eq_content = orElse (req_content req) [],
                      eq_messageId = Some (r_messageId resp)\<rparr> \<in> set (trace tw')
         \<and> PostEmbed \<lparr>eq_userId = orElse (req_userId req) [], eq_threadId = Some (r_threadId resp),
                      eq_content = r_answer resp, eq_messageId = Some aiId\<rparr> \<in> set (trace tw')))"
proof (intro conjI impI allI)
  show "\<exists>r. fst (createEmbedding svc net userId content threadId messageId w) = Inr r"
    by (rule createEmbedding_total)
next
  assume "\<not> enabled svc"
  then show "createEmbedding svc net userId content threadId messageId w =
          (Inr \<lparr>e_status = js ''error'',
                e_error = Some (js ''Embedding Service is disabled: No API URL available'')\<rparr>, w)"
    by (simp add: createEmbedding_def)
next
  fix e
  assume "enabled svc"
    and "embedApi net \<lparr>eq_userId = userId, eq_threadId = threadId, eq_content = content,
                           eq_messageId = messageId\<rparr> = Inl e"
  then show "\<exists>msg. fst (createEmbedding svc net userId content threadId messageId w) =
              Inr \<lparr>e_status = js ''error'', e_error = Some msg\<rparr>"
    by (rule createEmbedding_failure)
next
  show "createTurn svc (net\<lparr>embedApi := f\<rparr>) req tw = createTurn svc net req tw"
    by (rule createTurn_embedApi)
next
  fix resp tw'
  assume "enabled svc \<and> createTurn svc net req tw = (Inr resp, tw')"
  then show "\<exists>aiId.
           PostEmbed \<lparr>eq_userId = orElse (req_userId req) [], eq_threadId = Some (r_threadId resp),
                      eq_content = orElse (req_content req) [],
                      eq_messageId = Some (r_messageId resp)\<rparr> \<in> set (trace tw')
         \<and> PostEmbed \<lparr>eq_userId = orElse (req_userId req) [], eq_threadId = Some (r_threadId resp),
                      eq_content = r_answer resp, eq_messageId = Some aiId\<rparr> \<in> set (trace tw')"
    using createTurn_indexes_both by blast
qed

theorem createEmbedding_never_raises_witness:
  "\<not> enabled disabledService
   \<and> createEmbedding disabledService failingNetwork (js ''u1'') (js ''Hello'') None None emptyWorld =
       (Inr \<lparr>e_status = js ''error'',
             e_error = Some (js ''Embedding Service is disabled: No API URL available'')\<rparr>,
        emptyWorld)
   \<and> enabled enabledService
   \<and> embedApi failingNetwork
         \<lparr>eq_userId = js ''u1'', eq_threadId = Some 3, eq_content = js ''Hello'',
          eq_messageId = Some 4\<rparr> = Inl (AxiosError None (js ''timeout of 5000ms exceeded''))
   \<and> fst (createEmbedding enabledService failingNetwork (js ''u1'') (js ''Hello'') (Some 3) (Some 4)
            emptyWorld) =
       Inr \<lparr>e_status = js ''error'',
            e_error = Some (js ''API error: unknown - timeout of 5000ms exceeded'')\<rparr>
   \<and> createTurn enabledService (answeringNetwork\<lparr>embedApi := embedApi failingNetwork\<rparr>)
         helloRequest otherUserWorld
       = createTurn enabledService answeringNetwork helloRequest otherUserWorld
   \<and> (\<exists>w' aiId.
         createTurn enabledService (answeringNetwork\<lparr>embedApi := embedApi failingNetwork\<rparr>)
           helloRequest otherUserWorld
         = (Inr \<lparr>r_answer = greetingReply, r_context = js ''atlas'', r_responseId = js ''r-1'',
                r_threadId = 3, r_messageId = 4\<rparr>, w')
       \<and> PostEmbed \<lparr>eq_userId = js ''u1'', eq_threadId = Some 3, eq_content = js ''Hello'',
                    eq_messageId = Some 4\<rparr> \<in> set (trace w')
       \<and> PostEmbed \<lparr>eq_userId = js ''u1'', eq_threadId = Some 3, eq_content = greetingReply,
                    eq_messageId = Some aiId\<rparr> \<in> set (trace w'))"
proof -
  let ?flaky = "answeringNetwork\<lparr>embedApi := embedApi failingNetwork\<rparr>"
  note thm1 = createEmbedding_never_raises
    [of disabledService failingNetwork "js ''u1''" "js ''Hello''" None None emptyWorld]
  note thm2 = createEmbedding_never_raises
    [of enabledService failingNetwork "js ''u1''" "js ''Hello''" "Some 3" "Some 4" emptyWorld]
  note thm3 = createEmbedding_never_raises
    [of enabledService ?flaky "js ''u1''" "js ''Hello''" None None emptyWorld
        "embedApi failingNetwork" helloRequest otherUserWorld]
  have dis: "\<not> enabled disabledService" by (simp add: disabledService_enabled)
  have en: "enabled enabledService" by (simp add: enabledService_enabled)
  have p1: "createEmbedding disabledService failingNetwork (js ''u1'') (js ''Hello'') None None
      emptyWorld =
       (Inr \<lparr>e_status = js ''error'',
             e_error = Some (js ''Embedding Service is disabled: No API URL available'')\<rparr>,
        emptyWorld)"
    using thm1 dis by blast
  have p2: "embedApi failingNetwork
         \<lparr>eq_userId = js ''u1'', eq_threadId = Some 3, eq_content = js ''Hello'',
          eq_messageId = Some 4\<rparr> = Inl (AxiosError None (js ''timeout of 5000ms exceeded''))"
    by (simp add: failingNetwork_def)
  have p3: "fst (createEmbedding enabledService failingNetwork (js ''u1'') (js ''Hello'') (Some 3)
      (Some 4) emptyWorld) =
       Inr \<lparr>e_status = js ''error'',
            e_error = Some (js ''API error: unknown - timeout of 5000ms exceeded'')\<rparr>"
    by (simp add: createEmbedding_def en failingNetwork_def tryCatch_def Let_def js_def)
  have p4': "createTurn enabledService (answeringNetwork\<lparr>embedApi := embedApi failingNetwork\<rparr>)
         helloRequest otherUserWorld
       = createTurn enabledService answeringNetwork helloRequest otherUserWorld"
    using createEmbedding_never_raises
      [of enabledService answeringNetwork "js ''u1''" "js ''Hello''" None None emptyWorld
          "embedApi failingNetwork" helloRequest otherUserWorld]
    by blast
  from turn_flaky obtain w' where run:
    "createTurn enabledService ?flaky helloRequest otherUserWorld
     = (Inr \<lparr>r_answer = greetingReply, r_context = js ''atlas'', r_responseId = js ''r-1'',
            r_threadId = 3, r_messageId = 4\<rparr>, w')"
    by blast
  from thm3 en run obtain aiId where
    "PostEmbed \<lparr>eq_userId = orElse (req_userId helloRequest) [], eq_threadId = Some 3,
                eq_content = orElse (req_content helloRequest) [],
                eq_messageId = Some 4\<rparr> \<in> set (trace w')"
    "PostEmbed \<lparr>eq_userId = orElse (req_userId helloRequest) [], eq_threadId = Some 3,
                eq_content = greetingReply, eq_messageId = Some aiId\<rparr> \<in> set (trace w')"
    by fastforce
  then have p5:
    "PostEmbed \<lparr>eq_userId = js ''u1'', eq_threadId = Some 3, eq_content = js ''Hello'',
                eq_messageId = Some 4\<rparr> \<in> set (trace w')"
    "PostEmbed \<lparr>eq_userId = js ''u1'', eq_threadId = Some 3, eq_content = greetingReply,
                eq_messageId = Some aiId\<rparr> \<in> set (trace w')"
    by (simp_all add: helloRequest_def hello_truthy)
  from dis en p1 p2 p3 p4' run p5 show ?thesis by blast
qed

text \<open>
  The disabled result is not \<open>{error: "disabled"}\<close>: the error text is a longer message.
\<close>

theorem createEmbedding_disabled_counterexample:
  "fst (createEmbedding disabledService failingNetwork (js ''u1'') (js ''Hello'') None None emptyWorld)
     = Inr \<lparr>e_status = js ''error'',
            e_error = Some (js ''Embedding Service is disabled: No API URL available'')\<rparr>
   \<and> js ''Embedding Service is disabled: No API URL available'' \<noteq> js ''disabled''"
  by (simp add: createEmbedding_def disabledService_enabled js_def)

section \<open>No empty answer\<close>

lemma apology_in_table:
  "map_of enhancedResponses (js ''Sorry, I could not generate a response.'') = Some apology"
  by (simp add: enhancedResponses_def apology_def js_def)

lemma composeAnswer_apology: "composeAnswer [] content = Inr apology"
  by (simp add: composeAnswer_empty apology_def)

lemma generateOnly_run:
  assumes c: "truthy content"
    and r: "find (\<lambda>t. t_id t = tid) (threads w) = Some thread"
    and f: "\<And>w0. fst (fetchRAG svc net (t_userId thread) content (Some tid) w0)
              = (ragAnswer, ragContext, rid)"
    and a: "composeAnswer ragAnswer content = Inr enhanced"
  shows "\<exists>w'. generateOnly svc net (ObjectId tid) (Some content) w =
          (Inr \<lparr>g_answer = enhanced,
                g_context = (if truthy ragContext then ragContext
                             else js ''RAG context not available''),
                g_responseId = rid\<rparr>, w')"
proof -
  have cu: "orElse (Some content) [] = content"
    using c by (simp add: orElse_def)
  show ?thesis
    unfolding generateOnly_def
    by (simp add: cu c r f a case_prod_beta Let_def Message_save_def indexMessage_eq
        fetchRAG_world logEvent_def Thread_findById_def)
qed

text \<open>
  C10. A turn that completes, through either route (\<open>createTurn\<close> or
  \<open>generateOnly\<close>), returns an answer that is not empty, and the message it stored last
  is the assistant's, with that answer as its content. When the retrieval backend answers
  with an empty or missing \<open>answer\<close>, the answer of the turn is \<open>apology\<close>, the
  substitute that \<open>enhancedResponses\<close> stores for the literal
  \<open>Sorry, I could not generate a response.\<close>
\<close>

theorem turn_answer_nonempty:
  "(createTurn svc net req w = (Inr resp, w') \<longrightarrow>
      r_answer resp \<noteq> [] \<and> messages w' \<noteq> []
      \<and> m_content (last (messages w')) = r_answer resp
      \<and> m_sender (last (messages w')) = js ''system'')
   \<and> (createTurn svc net req w = (Inr resp, w') \<and> enabled svc
       \<and> ragApi net \<lparr>rq_userId = orElse (req_userId req) [], rq_threadId = None,
                      rq_query = orElse (req_content req) []\<rparr> = Inr d
       \<and> (rag_answer d = None \<or> rag_answer d = Some []) \<longrightarrow>
      r_answer resp = apology)
   \<and> (generateOnly svc net gid userMessage gw = (Inr gresp, gw') \<longrightarrow>
      g_answer gresp \<noteq> [] \<and> messages gw' \<noteq> []
      \<and> m_content (last (messages gw')) = g_answer gresp
      \<and> m_sender (last (messages gw')) = js ''system'')
   \<and> (generateOnly svc net gid userMessage gw = (Inr gresp, gw') \<and> enabled svc
       \<and> gid = ObjectId tid \<and> find (\<lambda>t. t_id t = tid) (threads gw) = Some thread
       \<and> ragApi net \<lparr>rq_userId = t_userId thread, rq_threadId = Some tid,
                      rq_query = orElse userMessage []\<rparr> = Inr gd
       \<and> (rag_answer gd = None \<or> rag_answer gd = Some []) \<longrightarrow>
      g_answer gresp = apology)
   \<and> map_of enhancedResponses (js ''Sorry, I could not generate a response.'') = Some apology
   \<and> apology \<noteq> []"
proof (intro conjI impI)
  assume "createTurn svc net req w = (Inr resp, w')"
  then show "r_answer resp \<noteq> []" "messages w' \<noteq> []"
    "m_content (last (messages w')) = r_answer resp"
    "m_sender (last (messages w')) = js ''system''"
    using createTurn_answer_nonempty by blast+
next
  assume h: "createTurn svc net req w = (Inr resp, w') \<and> enabled svc
       \<and> ragApi net \<lparr>rq_userId = orElse (req_userId req) [], rq_threadId = None,
                      rq_query = orElse (req_content req) []\<rparr> = Inr d
       \<and> (rag_answer d = None \<or> rag_answer d = Some [])"
  then obtain w3 where "composeAnswer
           (fst (fst (fetchRAG svc net (orElse (req_userId req) []) (orElse (req_content req) [])
                        None w3)))
           (orElse (req_content req) []) = Inr (r_answer resp)"
    using createTurn_composed by blast
  moreover from h have "fst (fst (fetchRAG svc net (orElse (req_userId req) [])
      (orElse (req_content req) []) None w3)) = []"
    using fetchRAG_missing_answer by blast
  ultimately show "r_answer resp = apology" by (simp add: composeAnswer_apology)
next
  assume "generateOnly svc net gid userMessage gw = (Inr gresp, gw')"
  then show "g_answer gresp \<noteq> []" "messages gw' \<noteq> []"
    "m_content (last (messages gw')) = g_answer gresp"
    "m_sender (last (messages gw')) = js ''system''"
    using generateOnly_answer_nonempty by blast+
next
  assume h: "generateOnly svc net gid userMessage gw = (Inr gresp, gw') \<and> enabled svc
       \<and> gid = ObjectId tid \<and> find (\<lambda>t. t_id t = tid) (threads gw) = Some thread
       \<and> ragApi net \<lparr>rq_userId = t_userId thread, rq_threadId = Some tid,
                      rq_query = orElse userMessage []\<rparr> = Inr gd
       \<and> (rag_answer gd = None \<or> rag_answer gd = Some [])"
  then have "generateOnly svc net (ObjectId tid) userMessage gw = (Inr gresp, gw')" by blast
  from generateOnly_composed [OF this] h obtain w3 where "composeAnswer
           (fst (fst (fetchRAG svc net (t_userId thread) (orElse userMessage []) (Some tid) w3)))
           (orElse userMessage []) = Inr (g_answer gresp)"
    by auto
  moreover from h have "fst (fst (fetchRAG svc net (t_userId thread) (orElse userMessage [])
      (Some tid) w3)) = []"
    using fetchRAG_missing_answer by blast
  ultimately show "g_answer gresp = apology" by (simp add: composeAnswer_apology)
next
  show "map_of enhancedResponses (js ''Sorry, I could not generate a response.'') = Some apology"
    by (rule apology_in_table)
next
  show "apology \<noteq> []" by (simp add: apology_def js_def)
qed

lemma fetchRAG_emptyAnswer:
  "fst (fetchRAG enabledService emptyAnswerNetwork userId content threadId w) = ([], [], [])"
  by (simp add: fetchRAG_def getRAGResponse_def enabledService_enabled emptyAnswerNetwork_def
      tryCatch_def Let_def orElse_def truthy_def)

lemma find_threadA: "find (\<lambda>t. t_id t = 0) (threads busyWorld) = Some threadA"
  by (simp add: busyWorld_def threadA_def)

theorem turn_answer_nonempty_witness:
  "enabled enabledService
   \<and> ragApi emptyAnswerNetwork \<lparr>rq_userId = js ''u1'', rq_threadId = None, rq_query = js ''Hello''\<rparr>
       = Inr \<lparr>rag_answer = Some [], rag_context = None, rag_responseId = None\<rparr>
   \<and> (\<exists>resp w'. createTurn enabledService emptyAnswerNetwork helloRequest otherUserWorld
                   = (Inr resp, w')
        \<and> r_answer resp = apology \<and> r_answer resp \<noteq> []
        \<and> m_content (last (messages w')) = apology)
   \<and> (\<exists>gresp gw'. generateOnly enabledService emptyAnswerNetwork (ObjectId 0) (Some (js ''Hello''))
                     busyWorld = (Inr gresp, gw')
        \<and> g_answer gresp = apology \<and> g_answer gresp \<noteq> []
        \<and> m_content (last (messages gw')) = g_answer gresp)"
proof -
  have en: "enabled enabledService" by (simp add: enabledService_enabled)
  have rag: "ragApi emptyAnswerNetwork
      \<lparr>rq_userId = js ''u1'', rq_threadId = None, rq_query = js ''Hello''\<rparr>
       = Inr \<lparr>rag_answer = Some [], rag_context = None, rag_responseId = None\<rparr>"
    by (simp add: emptyAnswerNetwork_def)
  from createTurn_run [OF hello_truthy(2) hello_truthy(4) resolve_otherUserWorld
      fetchRAG_emptyAnswer composeAnswer_apology, of None None]
  obtain resp w' where run:
    "createTurn enabledService emptyAnswerNetwork helloRequest otherUserWorld = (Inr resp, w')"
    unfolding helloRequest_def by blast
  have req: "orElse (req_userId helloRequest) [] = js ''u1''"
    "orElse (req_content helloRequest) [] = js ''Hello''"
    by (simp_all add: helloRequest_def hello_truthy)
  note inst1 = turn_answer_nonempty
    [where svc = enabledService and net = emptyAnswerNetwork and req = helloRequest
       and w = otherUserWorld and resp = resp and w' = w'
       and d = "\<lparr>rag_answer = Some [], rag_context = None, rag_responseId = None\<rparr>"]
  from inst1 run en rag req
  have t1: "r_answer resp = apology" "r_answer resp \<noteq> []"
    "m_content (last (messages w')) = r_answer resp"
    by simp_all
  from generateOnly_run [OF hello_truthy(2) find_threadA fetchRAG_emptyAnswer
      composeAnswer_apology]
  obtain gresp gw' where grun:
    "generateOnly enabledService emptyAnswerNetwork (ObjectId 0) (Some (js ''Hello'')) busyWorld
       = (Inr gresp, gw')"
    by blast
  have grag: "ragApi emptyAnswerNetwork
      \<lparr>rq_userId = t_userId threadA, rq_threadId = Some 0,
       rq_query = orElse (Some (js ''Hello'')) []\<rparr>
       = Inr \<lparr>rag_answer = Some [], rag_context = None, rag_responseId = None\<rparr>"
    by (simp add: emptyAnswerNetwork_def)
  from turn_answer_nonempty
    [where svc = enabledService and net = emptyAnswerNetwork and gid = "ObjectId 0"
       and userMessage = "Some (js ''Hello'')" and gw = busyWorld and gresp = gresp
       and gw' = gw' and tid = 0 and thread = threadA
       and gd = "\<lparr>rag_answer = Some [], rag_context = None, rag_responseId = None\<rparr>"]
    grun en find_threadA grag
  have t2: "g_answer gresp = apology" "g_answer gresp \<noteq> []"
    "m_content (last (messages gw')) = g_answer gresp"
    by simp_all
  from en rag run t1 grun t2 show ?thesis by auto
qed

section \<open>Properties of the batch import\<close>

lemma newMessages_fields:
  "map m_content (newMessages n now docs) = map (\<lambda>(tid, c, s). c) docs"
  "map m_sender (newMessages n now docs) = map (\<lambda>(tid, c, s). s) docs"
  "map m_threadId (newMessages n now docs) = map (\<lambda>(tid, c, s). tid) docs"
  by (induction n now docs rule: newMessages.induct) simp_all

lemma newMessages_ids: "map m_id (newMessages n now docs) = [n ..< n + length docs]"
  by (induction n now docs rule: newMessages.induct) (simp_all add: upt_rec)

lemma Message_insertMany_contents:
  "map m_content (fst (Message_insertMany docs w)) = map (\<lambda>(tid, c, s). c) docs"
  "map m_sender (fst (Message_insertMany docs w)) = map (\<lambda>(tid, c, s). s) docs"
  "map m_threadId (fst (Message_insertMany docs w)) = map (\<lambda>(tid, c, s). tid) docs"
  "map m_id (fst (Message_insertMany docs w)) = [nextId w ..< nextId w + length docs]"
  by (simp_all add: Message_insertMany_def Let_def newMessages_fields newMessages_ids)

lemma Message_insertMany_world:
  "messages (snd (Message_insertMany docs w)) = messages w @ fst (Message_insertMany docs w)"
  "threads (snd (Message_insertMany docs w)) = threads w"
  "trace (snd (Message_insertMany docs w)) =
     trace w @ [MessageInsertMany (map m_id (fst (Message_insertMany docs w)))]"
  by (simp_all add: Message_insertMany_def Let_def)

text \<open>
  C8. The batch import of a non-empty list of messages into the thread \<open>tid\<close>. If the
  thread does not exist the result is NotFound; if a user id is supplied and is not the
  thread's, the result is Unauthorized; in both cases nothing is stored. Otherwise, and so
  whenever no user id is supplied, all messages are stored by one \<open>insertMany\<close>, and the
  records returned are the stored ones in the order of the input. The trace of the call
  holds the thread lookup and that one insert, and no request to the embedding service.
\<close>

theorem batchCreateMessages_contract:
  assumes nonempty: "msgs \<noteq> []"
  shows
    "(find (\<lambda>t. t_id t = tid) (threads w) = None \<longrightarrow>
        batchCreateMessages (ObjectId tid) (Some msgs) userId w =
          (Inl (NotFoundError ''Thread not found''), logEvent (ThreadFindById tid) w))
     \<and> (\<forall>thread. find (\<lambda>t. t_id t = tid) (threads w) = Some thread \<longrightarrow>
          (truthy (orElse userId []) \<and> t_userId thread \<noteq> orElse userId [] \<longrightarrow>
             batchCreateMessages (ObjectId tid) (Some msgs) userId w =
               (Inl (UnauthorizedError
                  ''You do not have permission to add messages to this thread''),
                logEvent (ThreadFindById tid) w))
        \<and> (\<not> truthy (orElse userId []) \<or> t_userId thread = orElse userId [] \<longrightarrow>
             (\<exists>views created w'.
                batchCreateMessages (ObjectId tid) (Some msgs) userId w = (Inr views, w')
              \<and> views = map formatMessage created
              \<and> map v_content views = map p_content msgs
              \<and> map v_sender views =
                  map (\<lambda>msg. orElse (p_sender msg) (orElse userId (js ''system''))) msgs
              \<and> map v_threadId views = map (\<lambda>msg. tid) msgs
              \<and> map v_id views = [nextId w ..< nextId w + length msgs]
              \<and> messages w' = messages w @ created
              \<and> threads w' = threads w
              \<and> trace w' = trace w @ [ThreadFindById tid, MessageInsertMany (map v_id views)])))"
proof (intro conjI impI allI)
  assume "find (\<lambda>t. t_id t = tid) (threads w) = None"
  then show "batchCreateMessages (ObjectId tid) (Some msgs) userId w =
          (Inl (NotFoundError ''Thread not found''), logEvent (ThreadFindById tid) w)"
    using nonempty by (simp add: batchCreateMessages_def Thread_findById_def)
next
  fix thread
  assume "find (\<lambda>t. t_id t = tid) (threads w) = Some thread"
    and "truthy (orElse userId []) \<and> t_userId thread \<noteq> orElse userId []"
  then show "batchCreateMessages (ObjectId tid) (Some msgs) userId w =
               (Inl (UnauthorizedError
                  ''You do not have permission to add messages to this thread''),
                logEvent (ThreadFindById tid) w)"
    using nonempty by (simp add: batchCreateMessages_def Thread_findById_def)
next
  fix thread
  assume found: "find (\<lambda>t. t_id t = tid) (threads w) = Some thread"
    and ok: "\<not> truthy (orElse userId []) \<or> t_userId thread = orElse userId []"
  let ?docs = "map (\<lambda>msg. (tid, p_content msg,
                  orElse (p_sender msg) (orElse userId (js ''system'')))) msgs"
  let ?w1 = "logEvent (ThreadFindById tid) w"
  let ?created = "fst (Message_insertMany ?docs ?w1)"
  let ?w' = "snd (Message_insertMany ?docs ?w1)"
  have run: "batchCreateMessages (ObjectId tid) (Some msgs) userId w =
      (Inr (map formatMessage ?created), ?w')"
    using nonempty found ok
    by (auto simp: batchCreateMessages_def Thread_findById_def Let_def case_prod_beta)
  have w1: "nextId ?w1 = nextId w" "messages ?w1 = messages w" "threads ?w1 = threads w"
    "trace ?w1 = trace w @ [ThreadFindById tid]"
    by (simp_all add: logEvent_def)
  have fm: "v_content (formatMessage m) = m_content m"
    "v_sender (formatMessage m) = m_sender m"
    "v_threadId (formatMessage m) = m_threadId m"
    "v_id (formatMessage m) = m_id m" for m
    by (simp_all add: formatMessage_def)
  show "\<exists>views created w'.
                batchCreateMessages (ObjectId tid) (Some msgs) userId w = (Inr views, w')
              \<and> views = map formatMessage created
              \<and> map v_content views = map p_content msgs
              \<and> map v_sender views =
                  map (\<lambda>msg. orElse (p_sender msg) (orElse userId (js ''system''))) msgs
              \<and> map v_threadId views = map (\<lambda>msg. tid) msgs
              \<and> map v_id views = [nextId w ..< nextId w + length msgs]
              \<and> messages w' = messages w @ created
              \<and> threads w' = threads w
              \<and> trace w' = trace w @ [ThreadFindById tid, MessageInsertMany (map v_id views)]"
    apply (rule exI [of _ "map formatMessage ?created"])
    apply (rule exI [of _ ?created])
    apply (rule exI [of _ ?w'])
    apply (simp add: run fm Message_insertMany_contents Message_insertMany_world w1 comp_def
        case_prod_beta)
    done
qed

theorem batchCreateMessages_contract_witness:
  "importPayloads \<noteq> []
   \<and> find (\<lambda>t. t_id t = 9) (threads busyWorld) = None
   \<and> batchCreateMessages (ObjectId 9) (Some importPayloads) None busyWorld =
       (Inl (NotFoundError ''Thread not found''), logEvent (ThreadFindById 9) busyWorld)
   \<and> find (\<lambda>t. t_id t = 0) (threads busyWorld) = Some threadA
   \<and> truthy (orElse (Some (js ''u2'')) [])
   \<and> t_userId threadA \<noteq> orElse (Some (js ''u2'')) []
   \<and> batchCreateMessages (ObjectId 0) (Some importPayloads) (Some (js ''u2'')) busyWorld =
       (Inl (UnauthorizedError ''You do not have permission to add messages to this thread''),
        logEvent (ThreadFindById 0) busyWorld)
   \<and> \<not> truthy (orElse None [])
   \<and> (\<exists>views w'.
         batchCreateMessages (ObjectId 0) (Some importPayloads) None busyWorld = (Inr views, w')
       \<and> map v_content views = [js ''first'', js ''second'', js ''third'']
       \<and> map v_sender views = [js ''u1'', js ''system'', js ''system'']
       \<and> map v_id views = [7, 8, 9]
       \<and> length (messages w') = length (messages busyWorld) + 3
       \<and> trace w' = [ThreadFindById 0, MessageInsertMany [7, 8, 9]])"
proof -
  have ne: "importPayloads \<noteq> []" by (simp add: importPayloads_def)
  have absent: "find (\<lambda>t. t_id t = 9) (threads busyWorld) = None"
    by (simp add: busyWorld_def threadA_def threadB_def threadC_def)
  have u2: "truthy (orElse (Some (js ''u2'')) [])"
    "t_userId threadA \<noteq> orElse (Some (js ''u2'')) []"
    by (simp_all add: orElse_def truthy_def threadA_def js_def)
  have nouser: "\<not> truthy (orElse None [])" by (simp add: orElse_def truthy_def)
  note c1 = batchCreateMessages_contract [OF ne, of 9 busyWorld None]
  note c2 = batchCreateMessages_contract [OF ne, of 0 busyWorld "Some (js ''u2'')"]
  note c3 = batchCreateMessages_contract [OF ne, of 0 busyWorld None]
  from c1 absent have r1:
    "batchCreateMessages (ObjectId 9) (Some importPayloads) None busyWorld =
       (Inl (NotFoundError ''Thread not found''), logEvent (ThreadFindById 9) busyWorld)"
    by blast
  from c2 find_threadA u2 have r2:
    "batchCreateMessages (ObjectId 0) (Some importPayloads) (Some (js ''u2'')) busyWorld =
       (Inl (UnauthorizedError ''You do not have permission to add messages to this thread''),
        logEvent (ThreadFindById 0) busyWorld)"
    by blast
  from c3 find_threadA nouser obtain views created w' where r3:
    "batchCreateMessages (ObjectId 0) (Some importPayloads) None busyWorld = (Inr views, w')"
    "map v_content views = map p_content importPayloads"
    "map v_sender views =
       map (\<lambda>msg. orElse (p_sender msg) (orElse None (js ''system''))) importPayloads"
    "map v_id views = [nextId busyWorld ..< nextId busyWorld + length importPayloads]"
    "views = map formatMessage created"
    "messages w' = messages busyWorld @ created"
    "trace w' = trace busyWorld @ [ThreadFindById 0, MessageInsertMany (map v_id views)]"
    by blast
  have ids: "[nextId busyWorld ..< nextId busyWorld + length importPayloads] = [7, 8, 9]"
    by (simp add: busyWorld_def importPayloads_def upt_rec)
  from r3(5) r3(2) have "length created = 3"
    by (metis length_map importPayloads_def length_Cons list.size(3) numeral_3_eq_3)
  with r3 ids have
    "map v_content views = [js ''first'', js ''second'', js ''third'']"
    "map v_sender views = [js ''u1'', js ''system'', js ''system'']"
    "map v_id views = [7, 8, 9]"
    "length (messages w') = length (messages busyWorld) + 3"
    "trace w' = [ThreadFindById 0, MessageInsertMany [7, 8, 9]]"
    by (simp_all add: importPayloads_def orElse_def truthy_def js_def busyWorld_def)
  with ne absent find_threadA u2 nouser r1 r2 r3(1) show ?thesis by simp
qed

section \<open>Properties of memory recall\<close>

text \<open>
  What \<open>getRelevantMemory\<close> does, for any regular-expression engine: without a trigger
  phrase in the lower-cased query, or without a keyword, it returns the empty list and
  leaves the store and the trace as they are; otherwise it compiles the keyword as a
  pattern and returns the bullet lines of the three newest messages of the thread that are
  not from \<open>system\<close> and that the pattern matches.
\<close>

lemma getRelevantMemory_no_trigger:
  assumes "\<not> list_ex (\<lambda>trigger. includesStr (toLowerCase userMessage) trigger) triggers"
  shows "getRelevantMemory newRegExp threadId userMessage w = (Inr [], w)"
  using assms by (simp add: getRelevantMemory_def)

lemma getRelevantMemory_no_keyword:
  assumes "lastKeywordOf (toLowerCase userMessage) = []"
  shows "getRelevantMemory newRegExp threadId userMessage w = (Inr [], w)"
  using assms by (simp add: getRelevantMemory_def truthy_def Let_def)

lemma getRelevantMemory_search:
  assumes "list_ex (\<lambda>trigger. includesStr (toLowerCase userMessage) trigger) triggers"
    and "lastKeywordOf (toLowerCase userMessage) = keyword" and "keyword \<noteq> []"
    and "newRegExp keyword = Some regex"
  shows "getRelevantMemory newRegExp threadId userMessage w =
     (Inr (map (\<lambda>msg. [0x2022, 0x20] @ m_content msg)
        (take 3 (newestFirst
           (filter (\<lambda>m. m_threadId m = threadId \<and> m_sender m \<noteq> js ''system''
                         \<and> regex (m_content m)) (messages w))))),
      logEvent (MessageFind threadId) w)"
  using assms by (simp add: getRelevantMemory_def truthy_def Let_def Message_find_def)

lemma getRelevantMemory_syntax_error:
  assumes "list_ex (\<lambda>trigger. includesStr (toLowerCase userMessage) trigger) triggers"
    and "lastKeywordOf (toLowerCase userMessage) = keyword" and "keyword \<noteq> []"
    and "newRegExp keyword = None"
  shows "getRelevantMemory newRegExp threadId userMessage w =
     (Inl (SyntaxError ''Invalid regular expression''), w)"
  using assms by (simp add: getRelevantMemory_def truthy_def Let_def)

lemma newestFirst_sorted: "sorted (rev (map m_createdAt (newestFirst ms)))"
  by (simp add: newestFirst_def rev_map [symmetric])

lemma take_newestFirst_length: "length (take 3 (newestFirst ms)) \<le> 3"
  by simp

text \<open>
  C7 at two queries. The keyword is compiled as a regular expression, not searched as
  text: for \<open>what did i say about node.js\<close> the keyword \<open>node.js\<close> matches the
  message \<open>I use Node JS daily\<close>, whose text does not contain the keyword, and the
  message is returned; for \<open>what did i say earlier ?\<close> the keyword is \<open>?\<close>, the
  constructor rejects it, and the SyntaxError leaves the function.
\<close>

theorem getRelevantMemory_keyword_as_pattern:
  "fst (getRelevantMemory dotRegExp 0 (js ''what did i say about node.js'') busyWorld)
     = Inr [[0x2022, 0x20] @ js ''I use Node JS daily'']
   \<and> \<not> includesStr (toLowerCase (js ''I use Node JS daily'')) (js ''node.js'')
   \<and> fst (getRelevantMemory dotRegExp 0 (js ''what did i say earlier ?'') busyWorld)
     = Inl (SyntaxError ''Invalid regular expression'')"
proof (intro conjI)
  show "fst (getRelevantMemory dotRegExp 0 (js ''what did i say about node.js'') busyWorld)
     = Inr [[0x2022, 0x20] @ js ''I use Node JS daily'']"
    by (simp add: getRelevantMemory_def lastKeywordOf_def split_ws_def isWhiteSpace_def
        stopWords_def toLowerCase_def lowerUnit_def triggers_def truthy_def dotRegExp_def
        Message_find_def newestFirst_def busyWorld_def msgIot_def msgNode_def msgReply_def
        msgOther_def isLineTerminator_def js_def)
next
  show "\<not> includesStr (toLowerCase (js ''I use Node JS daily'')) (js ''node.js'')"
    by (simp add: toLowerCase_def lowerUnit_def js_def)
next
  show "fst (getRelevantMemory dotRegExp 0 (js ''what did i say earlier ?'') busyWorld)
     = Inl (SyntaxError ''Invalid regular expression'')"
    by (simp add: getRelevantMemory_def lastKeywordOf_def split_ws_def isWhiteSpace_def
        stopWords_def toLowerCase_def lowerUnit_def triggers_def truthy_def dotRegExp_def js_def)
qed

lemma getRelevantMemory_spec_example:
  "fst (getRelevantMemory dotRegExp 0 (js ''what did i say about iot'') busyWorld)
     = Inr [[0x2022, 0x20] @ js ''I built an IoT dashboard'']
   \<and> getRelevantMemory dotRegExp 0 (js ''hello'') busyWorld = (Inr [], busyWorld)"
  by (simp add: getRelevantMemory_def lastKeywordOf_def split_ws_def isWhiteSpace_def
      stopWords_def toLowerCase_def lowerUnit_def triggers_def truthy_def dotRegExp_def
      Message_find_def newestFirst_def busyWorld_def msgIot_def msgNode_def msgReply_def
      msgOther_def isLineTerminator_def js_def)

end
